theory Spec2Isabelle
  imports Main "HOL-Library.Char_ord" "HOL-Library.List_Lexorder"
begin

section \<open>Text utilities used by \<open>investpy/indices.py\<close>\<close>

text \<open>
  Python strings are modelled as \<^typ>\<open>string\<close>; a character stands for the code point
  with the same number, so the model covers the code points below 256.
\<close>

text \<open>\<open>str.isspace\<close> on one code point: the characters \<open>str.strip()\<close> removes.\<close>

definition isspace :: "char \<Rightarrow> bool" where
  "isspace c =
     (let n = (of_char c :: nat)
      in (9 \<le> n \<and> n \<le> 13) \<or> (28 \<le> n \<and> n \<le> 32) \<or> n = 133 \<or> n = 160)"

text \<open>\<open>s.strip()\<close>\<close>

definition strip :: "string \<Rightarrow> string" where
  "strip s = rev (dropWhile isspace (rev (dropWhile isspace s)))"

text \<open>\<open>s.lower()\<close>: the ASCII capitals and the Latin-1 capitals move up by 32.\<close>

definition lower_char :: "char \<Rightarrow> char" where
  "lower_char c =
     (let n = (of_char c :: nat)
      in if (65 \<le> n \<and> n \<le> 90) \<or> (192 \<le> n \<and> n \<le> 222 \<and> n \<noteq> 215)
         then char_of (n + 32) else c)"

definition lower :: "string \<Rightarrow> string" where
  "lower s = map lower_char s"

text \<open>
  \<open>unidecode.unidecode(s)\<close> keeps every ASCII character and replaces every other
  character by its entry in the package's transliteration table. The table is data of
  the \<open>unidecode\<close> package, so it is a parameter here.
\<close>

definition unidecode :: "(char \<Rightarrow> string) \<Rightarrow> string \<Rightarrow> string" where
  "unidecode tbl s = concat (map (\<lambda>c. if (of_char c :: nat) < 128 then [c] else tbl c) s)"

text \<open>\<open>s.replace(old, new)\<close>: every non-overlapping occurrence, from the left.\<close>

fun replace_from :: "string \<Rightarrow> string \<Rightarrow> string \<Rightarrow> string" where
  "replace_from old new [] = []"
| "replace_from old new (c # cs) =
     (if take (length old) (c # cs) = old
      then new @ replace_from old new (drop (length old - 1) cs)
      else c # replace_from old new cs)"

definition replace :: "string \<Rightarrow> string \<Rightarrow> string \<Rightarrow> string" where
  "replace old new s =
     (if old = [] then new @ concat (map (\<lambda>c. c # new) s) else replace_from old new s)"

text \<open>\<open>s.__contains__(sub)\<close>\<close>

fun contains :: "string \<Rightarrow> string \<Rightarrow> bool" where
  "contains sub [] = (sub = [])"
| "contains sub (c # cs) = (take (length sub) (c # cs) = sub \<or> contains sub cs)"

text \<open>\<open>str(x)\<close> of an attribute value that may be \<open>None\<close>\<close>

definition py_str :: "string option \<Rightarrow> string" where
  "py_str x = (case x of None \<Rightarrow> ''None'' | Some s \<Rightarrow> s)"

subsection \<open>The symbol pattern\<close>

text \<open>
  The character class \<open>[a-zA-Z0-9\.\-\_\=]\<close> of the pattern compiled in
  \<open>retrieve_index_info\<close>.
\<close>

definition symbol_char :: "char \<Rightarrow> bool" where
  "symbol_char c =
     (let n = (of_char c :: nat)
      in (97 \<le> n \<and> n \<le> 122) \<or> (65 \<le> n \<and> n \<le> 90) \<or> (48 \<le> n \<and> n \<le> 57)
         \<or> c = CHR ''.'' \<or> c = CHR ''-'' \<or> c = CHR ''_'' \<or> c = CHR ''='')"

text \<open>
  A match of \<open>\([a-zA-Z0-9\.\-\_\=]*?\)$\<close> that starts at the head of the string. The class
  excludes the closing parenthesis, so the lazy repetition can only stop at the first
  character outside the class; \<open>$\<close> holds at the end of the string and before a final
  newline. The value is the matched text, \<open>res.group()\<close>.
\<close>

definition match_here :: "string \<Rightarrow> string option" where
  "match_here s =
     (case s of
        [] \<Rightarrow> None
      | c # rest \<Rightarrow>
          if c = CHR ''(''
          then (let tok = takeWhile symbol_char rest; after = dropWhile symbol_char rest
                in if after = '')'' \<or> after = [CHR '')'', CHR 0x0A]
                   then Some (CHR ''('' # tok @ '')'') else None)
          else None)"

text \<open>\<open>pattern.search(val)\<close>: the leftmost position with a match.\<close>

fun pattern_search :: "string \<Rightarrow> string option" where
  "pattern_search [] = None"
| "pattern_search (c # cs) =
     (case match_here (c # cs) of Some m \<Rightarrow> Some m | None \<Rightarrow> pattern_search cs)"

text \<open>
  The body of the heading loop of \<open>retrieve_index_info\<close> for one heading whose
  \<open>text_content()\<close> is \<open>t\<close>: the symbol it assigns, if it assigns one.
\<close>

definition extract_symbol :: "string \<Rightarrow> string option" where
  "extract_symbol t =
     (if t \<noteq> []
      then (case pattern_search (strip t) of
              None \<Rightarrow> None
            | Some symbol \<Rightarrow> Some (replace '')'' [] (replace ''('' [] symbol)))
      else None)"

text \<open>
  The region of a row in the third pass (lines 276 to 286): \<open>region\<close> starts as
  \<open>None\<close>, and every flag span overwrites it with its \<open>title\<close> attribute.
\<close>

datatype error =
    ValueError string
  | IOError string
  | FileNotFoundError string
  | ConnectionError int
  | RuntimeError string
  | AttributeError
  | KeyError string

definition last_flag :: "string option list \<Rightarrow> string option" where
  "last_flag flags = fold (\<lambda>flag region. flag) flags None"

definition map_region :: "(char \<Rightarrow> string) \<Rightarrow> string option \<Rightarrow> error + string" where
  "map_region tbl region =
     (if region = Some [] then Inr ''world''
      else if region = Some ''Euro Zone'' then Inr (lower ''Euro Zone'')
      else (case region of
              None \<Rightarrow> Inl AttributeError
            | Some r \<Rightarrow> Inr (unidecode tbl (lower (strip r)))))"


section \<open>Pages, tables and files\<close>

text \<open>
  What the code reads from a parsed page: for each path expression it evaluates, the
  nodes found, each with the attributes and texts the code asks for. An attribute that
  is missing is \<open>None\<close>, as \<open>element.get\<close> returns it.
\<close>

record anchor =
  a_href :: "string option"
  a_title :: "string option"
  a_text :: "string option"

record table_row =
  row_id :: "string option"
  flag_titles :: "string option list"
  anchors :: "anchor list"

record select_option =
  opt_value :: "string option"
  opt_text :: string

record page =
  cr1 :: "table_row list"
  cr_12 :: "table_row list"
  instrument_head :: "string list"
  bottom_bold :: "string list"
  country_options :: "select_option list"

record response =
  status_code :: int
  body :: page

text \<open>
  A row of the catalog. The seven columns that the query functions keep form the parent
  record; \<open>tag\<close> and \<open>id\<close> extend it.
\<close>

record index_view =
  country :: string
  name :: string
  full_name :: string
  symbol :: "string option"
  currency :: "string option"
  class' :: string
  market :: string

record index_row = index_view +
  tag :: string
  id' :: string

text \<open>A row of a country table: of \<open>index_countries.csv\<close> or of \<open>global_indices_countries.csv\<close>.\<close>

datatype country_row =
    CountryEntry string string
  | GlobalCountryEntry string string

fun row_country :: "country_row \<Rightarrow> string" where
  "row_country (CountryEntry c n) = c"
| "row_country (GlobalCountryEntry i c) = c"

fun row_get_id :: "country_row \<Rightarrow> error + string" where
  "row_get_id (CountryEntry c n) = Inl (KeyError ''id'')"
| "row_get_id (GlobalCountryEntry i c) = Inr i"

text \<open>A \<open>pandas.DataFrame\<close>: the rows in order, each with its index label.\<close>

type_synonym 'a frame = "(nat \<times> 'a) list"

definition DataFrame :: "'a list \<Rightarrow> 'a frame" where
  "DataFrame rows = enumerate 0 rows"

definition reset_index :: "'a frame \<Rightarrow> 'a frame" where
  "reset_index df = enumerate 0 (map snd df)"

text \<open>\<open>df.drop_duplicates(subset="tag", keep='first')\<close>\<close>

fun drop_duplicates :: "index_row frame \<Rightarrow> index_row frame" where
  "drop_duplicates [] = []"
| "drop_duplicates (r # rs) =
     r # drop_duplicates (filter (\<lambda>q. tag (snd q) \<noteq> tag (snd r)) rs)"

text \<open>
  \<open>df.sort_values('country', ascending=True)\<close>. The default sort of pandas promises no
  order among rows of one country; the model keeps them in the order they had.
\<close>

definition sort_values :: "index_row frame \<Rightarrow> index_row frame" where
  "sort_values df = sort_key (\<lambda>r. country (snd r)) df"

text \<open>\<open>series.unique()\<close>: the values in order of first appearance.\<close>

fun unique :: "'a list \<Rightarrow> 'a list" where
  "unique [] = []"
| "unique (x # xs) = x # unique (filter (\<lambda>y. y \<noteq> x) xs)"

text \<open>
  The resource files of the package and the requests sent so far (each with the status
  of its response). A file that does not exist is \<open>None\<close>. A country file that exists
  holds its rows as the build reads them; the catalog file holds its rows as
  \<open>to_csv\<close> wrote them, a cell without value being \<open>None\<close> or the empty string.
\<close>

record world =
  index_countries_csv :: "(string \<times> string) list option"
  global_indices_countries_csv :: "(string \<times> string) list option"
  indices_csv :: "index_row list option"
  sent :: "(string \<times> int) list"

text \<open>
  A value in a table that a query function works on: a string, Python's \<open>None\<close>, the
  missing value \<open>NaN\<close>, a number with an integer value (\<open>Num n\<close> is the integer \<open>n\<close>,
  or the float equal to it that pandas holds when the column has missing values; Python
  takes the two as equal), a truth value, or another floating point number (\<open>Flt m e\<close>
  for \<open>m\<close> times two to the power \<open>e\<close>).
\<close>

datatype cell = Str string | Null | NaN | Num int | Bool bool | Flt int int

text \<open>A row of such a table, with the columns of \<open>index_view\<close> and \<open>index_row\<close>.\<close>

record view_cells =
  country_cell :: cell
  name_cell :: cell
  full_name_cell :: cell
  symbol_cell :: cell
  currency_cell :: cell
  class_cell :: cell
  market_cell :: cell

record row_cells = view_cells +
  tag_cell :: cell
  id_cell :: cell

text \<open>
  The collaborators: \<open>http n url\<close> is the response to the request number \<open>n\<close> when
  it asks for \<open>url\<close>; \<open>translit\<close> is the table of \<open>unidecode\<close>; \<open>read_cell column i\<close>
  is the value that \<open>pd.read_csv\<close> gives to the cell number \<open>i\<close> of a column of
  the catalog file whose written cells are \<open>column\<close>. The last one belongs to pandas: it
  reads an empty cell and the other missing value markers as \<open>NaN\<close>, and chooses the
  type of the other values from the whole column.
\<close>

record env =
  http :: "nat \<Rightarrow> string \<Rightarrow> response"
  translit :: "char \<Rightarrow> string"
  read_cell :: "string list \<Rightarrow> nat \<Rightarrow> cell"

text \<open>An argument of a public function: \<open>None\<close>, a value of the expected type, or another object.\<close>

datatype 'a pyarg = PyNone | Py 'a | PyOther

section \<open>Computations that raise and change the world\<close>

type_synonym 'a io = "world \<Rightarrow> (error + 'a) \<times> world"

definition return :: "'a \<Rightarrow> 'a io" where
  "return a s = (Inr a, s)"

definition raise :: "error \<Rightarrow> 'a io" where
  "raise e s = (Inl e, s)"

definition lift :: "error + 'a \<Rightarrow> 'a io" where
  "lift r s = (r, s)"

definition bind_io :: "'a io \<Rightarrow> ('a \<Rightarrow> 'b io) \<Rightarrow> 'b io" where
  "bind_io m f s = (case m s of (Inl e, s') \<Rightarrow> (Inl e, s') | (Inr a, s') \<Rightarrow> f a s')"

text \<open>
  A \<open>for\<close> loop over a list. The step returns the new value of the variables it
  updates, and whether it ended in \<open>break\<close>.
\<close>

fun for_loop :: "'a list \<Rightarrow> ('a \<Rightarrow> 'b \<Rightarrow> (bool \<times> 'b) io) \<Rightarrow> 'b \<Rightarrow> 'b io" where
  "for_loop [] step acc s = (Inr acc, s)"
| "for_loop (x # xs) step acc s =
     (case step x acc s of
        (Inl e, s') \<Rightarrow> (Inl e, s')
      | (Inr (stop, acc'), s') \<Rightarrow>
          if stop then (Inr acc', s') else for_loop xs step acc' s')"

definition continue :: "'b \<Rightarrow> (bool \<times> 'b) io" where
  "continue acc = return (False, acc)"

text \<open>A method call on an attribute value: \<open>AttributeError\<close> on \<open>None\<close>.\<close>

definition attr :: "string option \<Rightarrow> error + string" where
  "attr x = (case x of None \<Rightarrow> Inl AttributeError | Some v \<Rightarrow> Inr v)"

text \<open>
  \<open>req = requests.get(url, headers=head)\<close>. The headers differ between requests only in
  the user agent, which \<open>http\<close> need not look at: it may answer each request differently
  already.
\<close>

definition requests_get :: "env \<Rightarrow> string \<Rightarrow> response io" where
  "requests_get E url s =
     (let req = http E (length (sent s)) url
      in (Inr req, s\<lparr>sent := sent s @ [(url, status_code req)]\<rparr>))"

text \<open>
  The request, the status check and the parse that every fetch of the module consists
  of (as in lines 97 to 102).
\<close>

definition fetch_page :: "env \<Rightarrow> string \<Rightarrow> page io" where
  "fetch_page E url =
     bind_io (requests_get E url) (\<lambda>req.
       if status_code req \<noteq> 200 then raise (ConnectionError (status_code req))
       else return (body req))"

section \<open>The detail fetcher: \<open>retrieve_index_info\<close>\<close>

record index_info =
  info_currency :: "string option"
  info_symbol :: "string option"

text \<open>
  The two loops over the nodes found (lines 382 to 397), on the \<open>text_content()\<close> of
  each node: a later node that yields a value overwrites an earlier one.
\<close>

definition read_symbol :: "string list \<Rightarrow> string option" where
  "read_symbol texts =
     fold (\<lambda>t result. case extract_symbol t of None \<Rightarrow> result | Some v \<Rightarrow> Some v) texts None"

definition read_currency :: "string list \<Rightarrow> string option" where
  "read_currency texts = fold (\<lambda>t result. if t \<noteq> [] then Some t else result) texts None"

definition retrieve_index_info :: "env \<Rightarrow> string \<Rightarrow> index_info io" where
  "retrieve_index_info E tag0 =
     bind_io (fetch_page E (''https://www.investing.com/indices/'' @ tag0)) (\<lambda>root.
       return \<lparr>info_currency = read_currency (bottom_bold root),
               info_symbol = read_symbol (instrument_head root)\<rparr>)"

section \<open>The country listers\<close>

definition write_index_countries :: "(string \<times> string) list \<Rightarrow> unit io" where
  "write_index_countries rows s = (Inr (), s\<lparr>index_countries_csv := Some rows\<rparr>)"

definition write_global_indices_countries :: "(string \<times> string) list \<Rightarrow> unit io" where
  "write_global_indices_countries rows s =
     (Inr (), s\<lparr>global_indices_countries_csv := Some rows\<rparr>)"

definition country_of_value :: "string \<Rightarrow> string" where
  "country_of_value v =
     strip (replace ''-'' '' '' (replace ''-indices'' [] (replace ''/indices/'' [] v)))"

definition retrieve_index_countries :: "env \<Rightarrow> bool pyarg \<Rightarrow> country_row frame io" where
  "retrieve_index_countries E test_mode =
     (case test_mode of
        Py tm \<Rightarrow>
          bind_io (fetch_page E ''https://www.investing.com/indices/'') (\<lambda>root.
          bind_io (for_loop (country_options root) (\<lambda>element countries.
                     if opt_value element \<noteq> Some ''/indices/world-indices''
                     then bind_io (lift (attr (opt_value element))) (\<lambda>v.
                            continue (countries @
                              [(country_of_value v,
                                unidecode (translit E) (lower (strip (opt_text element))))]))
                     else continue countries) [])
            (\<lambda>countries.
               if length countries \<le> 0 then raise (RuntimeError ''ERR#0035'')
               else bind_io (if \<not> tm then write_index_countries countries else return ())
                      (\<lambda>_. return (DataFrame (map (\<lambda>(c, n). CountryEntry c n) countries)))))
      | _ \<Rightarrow> raise (ValueError ''ERR#0041''))"

definition retrieve_global_indices_countries :: "env \<Rightarrow> bool pyarg \<Rightarrow> country_row frame io" where
  "retrieve_global_indices_countries E test_mode =
     (case test_mode of
        Py tm \<Rightarrow>
          bind_io (fetch_page E ''https://www.investing.com/indices/global-indices'') (\<lambda>root.
          bind_io (for_loop (country_options root) (\<lambda>element countries.
                     if opt_value element \<noteq> Some ''/indices/global-indices''
                     then bind_io (lift (attr (opt_value element))) (\<lambda>v.
                            return (tm, countries @
                              [(replace ''/indices/global-indices?c_id='' [] v,
                                unidecode (translit E) (lower (strip (opt_text element))))]))
                     else continue countries) [])
            (\<lambda>countries.
               if length countries \<le> 0 then raise (RuntimeError ''ERR#0035'')
               else bind_io (if \<not> tm then write_global_indices_countries countries
                             else return ())
                      (\<lambda>_. return (DataFrame (map (\<lambda>(i, c). GlobalCountryEntry i c) countries)))))
      | _ \<Rightarrow> raise (ValueError ''ERR#0041''))"

section \<open>The catalog builder: \<open>retrieve_indices\<close>\<close>

text \<open>
  The loop over the anchors of a table row, the same in the three passes (lines 109 to
  131, 194 to 216 and 288 to 310): \<open>country0\<close>, \<open>class0\<close> and \<open>market0\<close> are the
  values the pass puts in these columns, \<open>id0\<close> is the identifier of the row.
\<close>

definition scan_anchors ::
  "env \<Rightarrow> string \<Rightarrow> string \<Rightarrow> string \<Rightarrow> string \<Rightarrow> anchor list \<Rightarrow> index_row list
     \<Rightarrow> index_row list io" where
  "scan_anchors E country0 class0 market0 id0 elements results =
     for_loop elements (\<lambda>element results.
       if contains ''/indices/'' (py_str (a_href element))
       then bind_io (lift (attr (a_href element))) (\<lambda>href.
            bind_io (lift (attr (a_title element))) (\<lambda>title.
            bind_io (lift (attr (a_text element))) (\<lambda>text0.
            let tag0 = replace ''/indices/'' [] href in
            bind_io (retrieve_index_info E tag0) (\<lambda>info.
            continue (results @
              [\<lparr>country = country0,
                name = strip text0,
                full_name = strip (replace '' (CFD)'' [] title),
                symbol = info_symbol info,
                currency = info_currency info,
                class' = class0,
                market = market0,
                tag = tag0,
                id' = id0\<rparr>])))))
       else continue results) results"

text \<open>The first pass (lines 59 to 134), after the file has been read.\<close>

definition pass1_filters :: "(string \<times> string) list" where
  "pass1_filters =
     [(''major_indices'', ''majorIndices=on''),
      (''primary_sectors'', ''primarySectors=on''),
      (''additional_indices'', ''additionalIndices=on''),
      (''other_indices'', ''otherIndices=on'')]"

definition pass1_country :: "string \<Rightarrow> string" where
  "pass1_country c =
     (if c = ''uk'' then ''united kingdom'' else if c = ''usa'' then ''united states'' else c)"

definition pass1 :: "env \<Rightarrow> bool \<Rightarrow> string list \<Rightarrow> index_row list \<Rightarrow> index_row list io" where
  "pass1 E tm countries results =
     for_loop countries (\<lambda>c results.
       bind_io
         (for_loop pass1_filters (\<lambda>indices_filter results.
            bind_io (fetch_page E (''https://www.investing.com/indices/'' @ replace '' '' ''-'' c
                                   @ ''-indices?&'' @ snd indices_filter)) (\<lambda>root.
              if cr1 root \<noteq> []
              then bind_io
                     (for_loop (cr1 root) (\<lambda>elements results.
                        bind_io (lift (attr (row_id elements))) (\<lambda>rid.
                        bind_io (scan_anchors E (pass1_country c) (fst indices_filter)
                                   ''world_indices'' (replace ''pair_'' [] rid)
                                   (anchors elements) results)
                          continue)) results)
                     continue
              else continue results)) results)
         (\<lambda>results. return (tm, results))) results"

text \<open>
  Lines 136 to 144: the table of countries of the second pass. A table read from a
  file and a table returned by a lister are both tables, never \<open>None\<close>.
\<close>

definition load_global_countries :: "env \<Rightarrow> country_row frame option io" where
  "load_global_countries E s =
     (case global_indices_countries_csv s of
        Some rows \<Rightarrow> return (Some (DataFrame (map (\<lambda>(i, c). GlobalCountryEntry i c) rows))) s
      | None \<Rightarrow> bind_io (retrieve_index_countries E (Py False)) (\<lambda>df. return (Some df)) s)"

text \<open>The second pass (lines 146 to 222).\<close>

definition pass2_filters :: "(string \<times> string) list" where
  "pass2_filters =
     [(''major_indices'', ''majorIndices=on''),
      (''primary_sectors'', ''primarySectors=on''),
      (''bonds'', ''bonds=on''),
      (''additional_indices'', ''additionalIndices=on''),
      (''other_indices'', ''otherIndices=on'')]"

definition pass2 ::
  "env \<Rightarrow> bool \<Rightarrow> country_row frame \<Rightarrow> index_row list \<Rightarrow> index_row list io" where
  "pass2 E tm countries results =
     for_loop countries (\<lambda>(_, row) results.
       bind_io
         (for_loop pass2_filters (\<lambda>indices_filter results.
            bind_io (lift (row_get_id row)) (\<lambda>cid.
            bind_io (fetch_page E (''https://www.investing.com/indices/global-indices?''
                                   @ snd indices_filter @ ''&c_id='' @ cid)) (\<lambda>root.
              if cr_12 root \<noteq> []
              then bind_io
                     (for_loop (cr_12 root) (\<lambda>elements results.
                        bind_io (lift (attr (row_id elements))) (\<lambda>rid.
                        bind_io (scan_anchors E (row_country row) (fst indices_filter)
                                   ''global_indices'' (replace ''pair_'' [] rid)
                                   (anchors elements) results)
                          (\<lambda>results. return (tm, results)))) results)
                     continue
              else continue results))) results)
         (\<lambda>results. return (tm, results))) results"

text \<open>The third pass (lines 224 to 313).\<close>

definition pass3_filters :: "(string \<times> string) list" where
  "pass3_filters =
     [(''major_indices'', ''majorIndices=on''),
      (''primary_sectors'', ''primarySectors=on''),
      (''bonds'', ''bonds=on''),
      (''additional_indices'', ''additionalIndices=on''),
      (''other_indices'', ''otherIndices=on''),
      (''commodities'', ''commodities=on'')]"

definition pass3_row ::
  "env \<Rightarrow> string \<Rightarrow> table_row \<Rightarrow> index_row list \<Rightarrow> index_row list io" where
  "pass3_row E class0 elements results =
     bind_io (lift (attr (row_id elements))) (\<lambda>rid.
     bind_io (lift (map_region (translit E) (last_flag (flag_titles elements)))) (\<lambda>region.
       scan_anchors E region class0 ''global_indices'' (replace ''pair_'' [] rid)
         (anchors elements) results))"

text \<open>The body of the loop over the filters (lines 252 to 313).\<close>

definition pass3_filter ::
  "env \<Rightarrow> bool \<Rightarrow> string \<times> string \<Rightarrow> index_row list \<Rightarrow> (bool \<times> index_row list) io" where
  "pass3_filter E tm indices_filter results =
     bind_io (fetch_page E (''https://www.investing.com/indices/global-indices?''
                            @ snd indices_filter @ ''&r_id='')) (\<lambda>root.
       if cr_12 root \<noteq> []
       then bind_io
              (for_loop (cr_12 root) (\<lambda>elements results.
                 bind_io (pass3_row E (fst indices_filter) elements results) continue)
                 results)
              (\<lambda>results. return (tm, results))
       else continue results)"

definition pass3 :: "env \<Rightarrow> bool \<Rightarrow> index_row list \<Rightarrow> index_row list io" where
  "pass3 E tm results = for_loop pass3_filters (pass3_filter E tm) results"

text \<open>
  Lines 315 to 329. A frame made from an empty list has no column:
  \<open>drop_duplicates\<close> returns it as it is, and \<open>sort_values('country')\<close> raises
  \<open>KeyError\<close>. The file is written without the index labels.
\<close>

definition finalize :: "bool \<Rightarrow> index_row list \<Rightarrow> index_row frame io" where
  "finalize tm results s =
     (if results = [] then (Inl (KeyError ''country''), s)
      else (let df = reset_index (sort_values (drop_duplicates (DataFrame results)))
            in (Inr df, if \<not> tm then s\<lparr>indices_csv := Some (map snd df)\<rparr> else s)))"

text \<open>The three passes, in the order of the source.\<close>

definition collect :: "env \<Rightarrow> bool \<Rightarrow> index_row list io" where
  "collect E tm s =
     (case index_countries_csv s of
        None \<Rightarrow> raise (IOError ''ERR#0036'') s
      | Some rows \<Rightarrow>
          bind_io (pass1 E tm (map fst rows) []) (\<lambda>results.
          bind_io (load_global_countries E) (\<lambda>countries.
            case countries of
              None \<Rightarrow> raise (IOError ''ERR#0036'')
            | Some df \<Rightarrow>
                bind_io (pass2 E tm df results) (\<lambda>results.
                pass3 E tm results))) s)"

definition retrieve_indices :: "env \<Rightarrow> bool pyarg \<Rightarrow> index_row frame io" where
  "retrieve_indices E test_mode =
     (case test_mode of
        Py tm \<Rightarrow> bind_io (collect E tm) (finalize tm)
      | _ \<Rightarrow> raise (ValueError ''ERR#0041''))"

section \<open>The query functions\<close>

text \<open>\<open>to_csv\<close> writes a cell without value as the empty string.\<close>

definition written :: "string option \<Rightarrow> string" where
  "written x = (case x of None \<Rightarrow> [] | Some v \<Rightarrow> v)"

text \<open>
  \<open>pd.read_csv(file)\<close> of the catalog file: a frame with fresh index labels, each
  column read by \<open>read_cell\<close> from its written cells. It is never \<open>None\<close>; the option
  keeps the \<open>is None\<close> checks of the source visible.
\<close>

definition read_csv :: "env \<Rightarrow> index_row list \<Rightarrow> row_cells frame option" where
  "read_csv E rows =
     Some (DataFrame (map (\<lambda>i.
       \<lparr>country_cell = read_cell E (map country rows) i,
        name_cell = read_cell E (map name rows) i,
        full_name_cell = read_cell E (map full_name rows) i,
        symbol_cell = read_cell E (map (\<lambda>r. written (symbol r)) rows) i,
        currency_cell = read_cell E (map (\<lambda>r. written (currency r)) rows) i,
        class_cell = read_cell E (map class' rows) i,
        market_cell = read_cell E (map market rows) i,
        tag_cell = read_cell E (map tag rows) i,
        id_cell = read_cell E (map id' rows) i\<rparr>) [0..<length rows]))"

text \<open>
  A row of the frame that \<open>retrieve_indices\<close> returns, as the values it holds in
  memory: strings, and \<open>None\<close> for a symbol or a currency that was not found.
\<close>

definition opt_cell :: "string option \<Rightarrow> cell" where
  "opt_cell x = (case x of None \<Rightarrow> Null | Some v \<Rightarrow> Str v)"

definition in_memory :: "index_row \<Rightarrow> row_cells" where
  "in_memory r =
     \<lparr>country_cell = Str (country r), name_cell = Str (name r),
      full_name_cell = Str (full_name r), symbol_cell = opt_cell (symbol r),
      currency_cell = opt_cell (currency r), class_cell = Str (class' r),
      market_cell = Str (market r), tag_cell = Str (tag r), id_cell = Str (id' r)\<rparr>"

definition index_countries_as_list :: "env \<Rightarrow> cell list io" where
  "index_countries_as_list E s =
     (case indices_csv s of
        Some rows \<Rightarrow>
          (case read_csv E rows of
             None \<Rightarrow> raise (IOError ''ERR#0037'') s
           | Some indices \<Rightarrow> return (unique (map (\<lambda>r. country_cell (snd r)) indices)) s)
      | None \<Rightarrow> raise (FileNotFoundError ''ERR#0059'') s)"

text \<open>
  The load that opens \<open>indices_as_df\<close>, \<open>indices_as_list\<close> and \<open>indices_as_dict\<close>:
  the file if it exists, and otherwise the frame that a build with the default
  \<open>test_mode=False\<close> returns.
\<close>

definition load_indices :: "env \<Rightarrow> row_cells frame option io" where
  "load_indices E s =
     (case indices_csv s of
        Some rows \<Rightarrow> return (read_csv E rows) s
      | None \<Rightarrow>
          bind_io (retrieve_indices E (Py False))
            (\<lambda>df. return (Some (map (\<lambda>(i, r). (i, in_memory r)) df))) s)"

text \<open>\<open>indices.drop(columns=['tag', 'id'], inplace=True)\<close>\<close>

definition drop_tag_id :: "row_cells \<Rightarrow> view_cells" where
  "drop_tag_id r =
     \<lparr>country_cell = country_cell r, name_cell = name_cell r,
      full_name_cell = full_name_cell r, symbol_cell = symbol_cell r,
      currency_cell = currency_cell r, class_cell = class_cell r,
      market_cell = market_cell r\<rparr>"

definition drop_columns :: "row_cells frame \<Rightarrow> view_cells frame" where
  "drop_columns df = map (\<lambda>(i, r). (i, drop_tag_id r)) df"

text \<open>\<open>indices[indices['country'] == c]\<close> for a string \<open>c\<close>\<close>

definition where_country :: "string \<Rightarrow> view_cells frame \<Rightarrow> view_cells frame" where
  "where_country c df = filter (\<lambda>(i, r). country_cell r = Str c) df"

definition indices_as_df :: "env \<Rightarrow> string pyarg \<Rightarrow> view_cells frame option io" where
  "indices_as_df E country0 =
     (if country0 = PyOther then raise (ValueError ''ERR#0025'')
      else bind_io (load_indices E) (\<lambda>loaded.
        case loaded of
          None \<Rightarrow> raise (IOError ''ERR#0037'')
        | Some full \<Rightarrow>
            (let indices = drop_columns full in
             case country0 of
               Py c \<Rightarrow>
                 bind_io (index_countries_as_list E) (\<lambda>countries.
                   if Str (unidecode (translit E) (lower c)) \<in> set countries
                   then return (Some (reset_index
                          (where_country (unidecode (translit E) (lower c)) indices)))
                   else return None)
             | _ \<Rightarrow> return (Some (reset_index indices)))))"

definition indices_as_list :: "env \<Rightarrow> string pyarg \<Rightarrow> cell list option io" where
  "indices_as_list E country0 =
     (if country0 = PyOther then raise (ValueError ''ERR#0025'')
      else bind_io (load_indices E) (\<lambda>loaded.
        case loaded of
          None \<Rightarrow> raise (IOError ''ERR#0037'')
        | Some full \<Rightarrow>
            (let indices = drop_columns full in
             case country0 of
               Py c \<Rightarrow>
                 bind_io (index_countries_as_list E) (\<lambda>countries.
                   if Str (unidecode (translit E) (lower c)) \<in> set countries
                   then return (Some (map (\<lambda>(i, r). name_cell r)
                          (where_country (unidecode (translit E) (lower c)) indices)))
                   else return None)
             | _ \<Rightarrow> return (Some (map (\<lambda>(i, r). name_cell r) indices)))))"

text \<open>
  The columns left after the drop, \<open>indices.columns.tolist()\<close>, and the value of a row
  in one of them.
\<close>

definition view_columns :: "string list" where
  "view_columns =
     [''country'', ''name'', ''full_name'', ''symbol'', ''currency'', ''class'', ''market'']"

definition cell_of :: "string \<Rightarrow> view_cells \<Rightarrow> cell" where
  "cell_of column r =
     (if column = ''country'' then country_cell r
      else if column = ''name'' then name_cell r
      else if column = ''full_name'' then full_name_cell r
      else if column = ''symbol'' then symbol_cell r
      else if column = ''currency'' then currency_cell r
      else if column = ''class'' then class_cell r
      else if column = ''market'' then market_cell r
      else Null)"

text \<open>
  \<open>indices[columns].to_dict(orient='records')\<close>: one dictionary for each row, with
  the selected columns as keys.
\<close>

definition to_dict :: "string list \<Rightarrow> view_cells frame \<Rightarrow> (string \<times> cell) list list" where
  "to_dict columns df = map (\<lambda>(i, r). map (\<lambda>c. (c, cell_of c r)) (unique columns)) df"

text \<open>The value returned: the records, or the document \<open>json.dumps\<close> makes of them.\<close>

datatype exported =
    Records "(string \<times> cell) list list"
  | Document "(string \<times> cell) list list"

definition export :: "bool \<Rightarrow> (string \<times> cell) list list \<Rightarrow> exported" where
  "export as_json records = (if as_json then Document records else Records records)"

definition indices_as_dict ::
  "env \<Rightarrow> string pyarg \<Rightarrow> string list pyarg \<Rightarrow> bool pyarg \<Rightarrow> exported option io" where
  "indices_as_dict E country0 columns0 as_json0 =
     (if country0 = PyOther then raise (ValueError ''ERR#0025'')
      else (case as_json0 of
        Py as_json \<Rightarrow>
          bind_io (load_indices E) (\<lambda>loaded.
            case loaded of
              None \<Rightarrow> raise (IOError ''ERR#0037'')
            | Some full \<Rightarrow>
                (let indices = drop_columns full in
                 bind_io (case columns0 of
                            PyNone \<Rightarrow> return view_columns
                          | Py cols \<Rightarrow> return cols
                          | PyOther \<Rightarrow> raise (ValueError ''ERR#0020'')) (\<lambda>columns.
                 if \<not> list_all (\<lambda>column. column \<in> set view_columns) columns
                 then raise (ValueError ''ERR#0023'')
                 else (case country0 of
                   Py c \<Rightarrow>
                     bind_io (index_countries_as_list E) (\<lambda>countries.
                       if Str c \<in> set countries
                       then return (Some (export as_json (to_dict columns
                              (where_country (unidecode (translit E) (lower c)) indices))))
                       else return None)
                 | _ \<Rightarrow> return (Some (export as_json (to_dict columns indices)))))))
      | _ \<Rightarrow> raise (ValueError ''ERR#0002'')))"

section \<open>Example inputs\<close>

text \<open>
  What pandas makes of the cells of the examples below: the missing value markers
  become \<open>NaN\<close>, a column whose other cells are all integers becomes a column of
  numbers, and every other cell is read as the string that was written. (Columns of
  floating point numbers or of truth values do not occur in the examples.)
\<close>

definition na_values :: "string list" where
  "na_values =
     ['''', ''#N/A'', ''#N/A N/A'', ''#NA'', ''-1.#IND'', ''-1.#QNAN'', ''-NaN'', ''-nan'',
      ''1.#IND'', ''1.#QNAN'', ''N/A'', ''NA'', ''NULL'', ''NaN'', ''n/a'', ''nan'', ''null'']"

definition is_digit :: "char \<Rightarrow> bool" where
  "is_digit c = (48 \<le> (of_char c :: nat) \<and> (of_char c :: nat) \<le> 57)"

definition is_int :: "string \<Rightarrow> bool" where
  "is_int s =
     (case s of
        [] \<Rightarrow> False
      | c # cs \<Rightarrow>
          if c = CHR ''-'' \<or> c = CHR ''+'' then cs \<noteq> [] \<and> list_all is_digit cs
          else list_all is_digit (c # cs))"

definition digits_value :: "string \<Rightarrow> int" where
  "digits_value s = foldl (\<lambda>n c. 10 * n + (int (of_char c) - 48)) 0 s"

definition int_value :: "string \<Rightarrow> int" where
  "int_value s =
     (case s of
        [] \<Rightarrow> 0
      | c # cs \<Rightarrow>
          if c = CHR ''-'' then - digits_value cs
          else if c = CHR ''+'' then digits_value cs
          else digits_value (c # cs))"

definition pandas_cell :: "string list \<Rightarrow> nat \<Rightarrow> cell" where
  "pandas_cell column i =
     (if i < length column
      then (let c = column ! i
            in if c \<in> set na_values then NaN
               else if list_all (\<lambda>x. x \<in> set na_values \<or> is_int x) column
                    then Num (int_value c)
                    else Str c)
      else NaN)"

definition dax :: index_row where
  "dax =
     \<lparr>country = ''germany'', name = ''DAX'', full_name = ''DAX 30'', symbol = Some ''GDAXI'',
      currency = Some ''EUR'', class' = ''major_indices'', market = ''world_indices'',
      tag = ''germany-30'', id' = ''172''\<rparr>"

definition nikkei :: index_row where
  "nikkei =
     \<lparr>country = ''japan'', name = ''Nikkei 225'', full_name = ''Nikkei 225'',
      symbol = Some ''N225'', currency = Some ''JPY'', class' = ''major_indices'',
      market = ''world_indices'', tag = ''japan-ni225'', id' = ''178''\<rparr>"

text \<open>
  A row whose country is the empty string, as a build writes it for a flag whose title
  is a blank, and the rows that \<open>pandas_cell\<close> reads from a catalog file that holds it
  between \<open>dax\<close> and \<open>nikkei\<close>: the empty cells are \<open>NaN\<close> and the identifiers are
  numbers.
\<close>

definition no_country :: index_row where
  "no_country =
     \<lparr>country = '''', name = ''Index 7'', full_name = ''Index 7'', symbol = None,
      currency = None, class' = ''bonds'', market = ''global_indices'', tag = ''index-7'',
      id' = ''007''\<rparr>"

definition dax_cells :: row_cells where
  "dax_cells = (in_memory dax)\<lparr>id_cell := Num 172\<rparr>"

definition no_country_cells :: row_cells where
  "no_country_cells =
     (in_memory no_country)\<lparr>country_cell := NaN, symbol_cell := NaN, currency_cell := NaN,
        id_cell := Num 7\<rparr>"

definition nikkei_cells :: row_cells where
  "nikkei_cells = (in_memory nikkei)\<lparr>id_cell := Num 178\<rparr>"

text \<open>A package directory with no country file and the given catalog, before any request.\<close>

definition files_with :: "index_row list option \<Rightarrow> world" where
  "files_with catalog =
     \<lparr>index_countries_csv = None, global_indices_countries_csv = None,
      indices_csv = catalog, sent = []\<rparr>"

definition empty_page :: page where
  "empty_page =
     \<lparr>cr1 = [], cr_12 = [], instrument_head = [], bottom_bold = [], country_options = []\<rparr>"

text \<open>A provider that answers every request with status 404.\<close>

definition silent_env :: env where
  "silent_env =
     \<lparr>http = (\<lambda>n url. \<lparr>status_code = 404, body = empty_page\<rparr>), translit = (\<lambda>c. ''?''),
      read_cell = pandas_cell\<rparr>"

text \<open>A package directory with one country in each country file and a catalog of one row.\<close>

definition spain_files :: world where
  "spain_files =
     \<lparr>index_countries_csv = Some [(''spain'', ''spain'')],
      global_indices_countries_csv = Some [(''26'', ''spain'')],
      indices_csv = Some [dax], sent = []\<rparr>"

text \<open>
  A provider that answers every request with status 200 and one page: a listing of two
  rows, of Japan and of Germany, and the heading and the currency of a detail page.
\<close>

definition listing_page :: page where
  "listing_page =
     \<lparr>cr1 = [],
      cr_12 =
        [\<lparr>row_id = Some ''pair_178'', flag_titles = [Some ''Japan''],
          anchors = [\<lparr>a_href = Some ''/indices/japan-ni225'',
                      a_title = Some ''Nikkei 225 (CFD)'', a_text = Some ''Nikkei 225''\<rparr>]\<rparr>,
         \<lparr>row_id = Some ''pair_172'', flag_titles = [Some ''Germany''],
          anchors = [\<lparr>a_href = Some ''/indices/germany-30'',
                      a_title = Some ''DAX (CFD)'', a_text = Some '' DAX ''\<rparr>]\<rparr>],
      instrument_head = [''Example Index (IDX)''],
      bottom_bold = [''USD''],
      country_options = []\<rparr>"

definition listing_env :: env where
  "listing_env =
     \<lparr>http = (\<lambda>n url. \<lparr>status_code = 200, body = listing_page\<rparr>), translit = (\<lambda>c. ''?''),
      read_cell = pandas_cell\<rparr>"

text \<open>A package directory with two country files without rows and no catalog.\<close>

definition fresh_files :: world where
  "fresh_files =
     \<lparr>index_countries_csv = Some [], global_indices_countries_csv = Some [],
      indices_csv = None, sent = []\<rparr>"

text \<open>
  The rows that a build finds on \<open>listing_page\<close> for a filter of class \<open>cl\<close>, the requests
  it sends for that filter, and both for the six filters of the third pass.
\<close>

definition listed :: "string \<Rightarrow> string \<Rightarrow> index_row" where
  "listed c cl =
     (if c = ''japan''
      then \<lparr>country = ''japan'', name = ''Nikkei 225'', full_name = ''Nikkei 225'',
            symbol = Some ''IDX'', currency = Some ''USD'', class' = cl,
            market = ''global_indices'', tag = ''japan-ni225'', id' = ''178''\<rparr>
      else \<lparr>country = ''germany'', name = ''DAX'', full_name = ''DAX'',
            symbol = Some ''IDX'', currency = Some ''USD'', class' = cl,
            market = ''global_indices'', tag = ''germany-30'', id' = ''172''\<rparr>)"




text \<open>
  A provider whose listing has one row without a flag span, and whose detail page has
  neither a heading nor a currency.
\<close>

definition flagless_page :: page where
  "flagless_page =
     \<lparr>cr1 = [],
      cr_12 =
        [\<lparr>row_id = Some ''pair_178'', flag_titles = [],
          anchors = [\<lparr>a_href = Some ''/indices/japan-ni225'',
                      a_title = Some ''Nikkei 225 (CFD)'', a_text = Some ''Nikkei 225''\<rparr>]\<rparr>],
      instrument_head = [],
      bottom_bold = [],
      country_options = []\<rparr>"

definition flagless_env :: env where
  "flagless_env =
     \<lparr>http = (\<lambda>n url. \<lparr>status_code = 200, body = flagless_page\<rparr>), translit = (\<lambda>c. ''?''),
      read_cell = pandas_cell\<rparr>"

text \<open>A provider whose country selector lists Spain after the default entry.\<close>

definition selector_page :: page where
  "selector_page =
     \<lparr>cr1 = [], cr_12 = [], instrument_head = [], bottom_bold = [],
      country_options =
        [\<lparr>opt_value = Some ''/indices/world-indices'', opt_text = ''World Indices''\<rparr>,
         \<lparr>opt_value = Some ''/indices/spain-indices'', opt_text = '' Spain ''\<rparr>]\<rparr>"

definition selector_env :: env where
  "selector_env =
     \<lparr>http = (\<lambda>n url. \<lparr>status_code = 200, body = selector_page\<rparr>), translit = (\<lambda>c. ''?''),
      read_cell = pandas_cell\<rparr>"

text \<open>A package directory with a country file without rows and no other file.\<close>

definition first_file_only :: world where
  "first_file_only =
     \<lparr>index_countries_csv = Some [], global_indices_countries_csv = None,
      indices_csv = None, sent = []\<rparr>"

section \<open>What a computation does to the files and to the log of requests\<close>

definition all200 :: "(string \<times> int) list \<Rightarrow> bool" where
  "all200 log = list_all (\<lambda>(url, code). code = 200) log"

definition failure :: "error + 'a \<Rightarrow> error option" where
  "failure r = (case r of Inl e \<Rightarrow> Some e | Inr a \<Rightarrow> None)"

text \<open>
  The requests a computation has added to the log, and its failure if it failed: either
  every response had status 200, or only the last one had another status and the failure
  is the \<open>ConnectionError\<close> of that status.
\<close>

definition log_ok :: "(string \<times> int) list \<Rightarrow> error option \<Rightarrow> bool" where
  "log_ok new e =
     (all200 new \<or>
      (\<exists>pre url code. new = pre @ [(url, code)] \<and> all200 pre \<and> code \<noteq> 200
         \<and> e = Some (ConnectionError code)))"

text \<open>
  A computation is tidy for a part \<open>keep\<close> of the world when it leaves that part as it
  is, only appends to the log, and appends as \<open>log_ok\<close> says.
\<close>

definition tidy :: "(world \<Rightarrow> 'k) \<Rightarrow> 'a io \<Rightarrow> bool" where
  "tidy keep m =
     (\<forall>s r s'. m s = (r, s') \<longrightarrow>
        keep s' = keep s \<and> (\<exists>new. sent s' = sent s @ new \<and> log_ok new (failure r)))"

text \<open>
  A computation that updates a list of records grows it by \<open>Q\<close> when the list it
  returns is the list it started from, followed by records that satisfy \<open>Q\<close>.
\<close>

definition grows :: "(index_row \<Rightarrow> bool) \<Rightarrow> index_row list \<Rightarrow> index_row list io \<Rightarrow> bool" where
  "grows Q acc m =
     (\<forall>s acc' s'. m s = (Inr acc', s') \<longrightarrow> (\<exists>new. acc' = acc @ new \<and> list_all Q new))"

definition grows_step ::
  "(index_row \<Rightarrow> bool) \<Rightarrow> index_row list \<Rightarrow> (bool \<times> index_row list) io \<Rightarrow> bool" where
  "grows_step Q acc m =
     (\<forall>s stop acc' s'. m s = (Inr (stop, acc'), s') \<longrightarrow>
        (\<exists>new. acc' = acc @ new \<and> list_all Q new))"

section \<open>Properties of the text utilities\<close>

lemma lower_euro_zone: "lower ''Euro Zone'' = ''euro zone''"
  by code_simp

lemma last_flag_snoc: "last_flag (flags @ [x]) = x"
  by (simp add: last_flag_def)

lemma symbol_char_not_paren:
  "symbol_char c \<Longrightarrow> c \<noteq> CHR ''('' \<and> c \<noteq> CHR '')'' \<and> c \<noteq> CHR 0x0A"
  by (auto simp: symbol_char_def)

lemma replace_single: "replace [c] [] s = filter (\<lambda>x. x \<noteq> c) s"
  by (induction s) (auto simp: replace_def)

lemma takeWhile_tok:
  "list_all symbol_char tok \<Longrightarrow> takeWhile symbol_char (tok @ '')'' @ rest) = tok"
  by (induction tok) (auto simp: symbol_char_def)

lemma dropWhile_tok:
  "list_all symbol_char tok \<Longrightarrow> dropWhile symbol_char (tok @ '')'' @ rest) = '')'' @ rest"
  by (induction tok) (auto simp: symbol_char_def)

lemma match_here_token:
  "list_all symbol_char tok \<Longrightarrow> match_here (''('' @ tok @ '')'') = Some (''('' @ tok @ '')'')"
  using takeWhile_tok[of tok "[]"] dropWhile_tok[of tok "[]"]
  by (simp add: match_here_def)

lemma dropWhile_keeps: "x \<in> set ys \<Longrightarrow> \<not> P x \<Longrightarrow> x \<in> set (dropWhile P ys)"
  by (induction ys) auto

text \<open>No match starts before the last opening parenthesis.\<close>

lemma match_here_early: "match_here (c # pre @ ''('' @ tok @ '')'') = None"
proof -
  have "CHR ''('' \<in> set (dropWhile symbol_char (pre @ ''('' @ tok @ '')''))"
    by (rule dropWhile_keeps) (auto simp: symbol_char_def)
  then have "dropWhile symbol_char (pre @ ''('' @ tok @ '')'') \<noteq> '')''"
    and "dropWhile symbol_char (pre @ ''('' @ tok @ '')'') \<noteq> [CHR '')'', CHR 0x0A]"
    by auto
  then show ?thesis by (simp add: match_here_def Let_def)
qed

lemma pattern_search_token:
  "list_all symbol_char tok \<Longrightarrow>
     pattern_search (pre @ ''('' @ tok @ '')'') = Some (''('' @ tok @ '')'')"
proof (induction pre)
  case Nil
  then show ?case using match_here_token[of tok] by simp
next
  case (Cons c pre)
  then show ?case using match_here_early[of c pre tok] by simp
qed

lemma match_here_Some:
  assumes a: "match_here s = Some m"
  shows "\<exists>tok. list_all symbol_char tok \<and> m = ''('' @ tok @ '')''
           \<and> (s = m \<or> s = m @ [CHR 0x0A])"
proof -
  from a obtain rest where s: "s = CHR ''('' # rest"
    by (auto simp: match_here_def split: list.splits if_splits)
  let ?tok = "takeWhile symbol_char rest"
  let ?after = "dropWhile symbol_char rest"
  from a s have m: "m = CHR ''('' # ?tok @ '')''"
    and af: "?after = '')'' \<or> ?after = [CHR '')'', CHR 0x0A]"
    by (auto simp: match_here_def Let_def split: if_splits)
  have r: "rest = ?tok @ ?after" by simp
  have "list_all symbol_char ?tok" by (simp add: list_all_iff) (meson set_takeWhileD)
  moreover have "s = m \<or> s = m @ [CHR 0x0A]"
    using af
  proof
    assume "?after = '')''"
    then have "rest = ?tok @ '')''" using r by metis
    then show ?thesis using s m by simp
  next
    assume "?after = [CHR '')'', CHR 0x0A]"
    then have "rest = ?tok @ [CHR '')'', CHR 0x0A]" using r by metis
    then show ?thesis using s m by simp
  qed
  ultimately show ?thesis using m by auto
qed

lemma pattern_search_Some:
  "pattern_search s = Some m \<Longrightarrow>
     \<exists>pre tok. list_all symbol_char tok \<and> m = ''('' @ tok @ '')''
        \<and> (s = pre @ m \<or> s = pre @ m @ [CHR 0x0A])"
proof (induction s)
  case Nil
  then show ?case by simp
next
  case (Cons c cs)
  show ?case
  proof (cases "match_here (c # cs)")
    case None
    with Cons.prems have "pattern_search cs = Some m" by simp
    from Cons.IH[OF this] obtain pre tok where
      "list_all symbol_char tok" "m = ''('' @ tok @ '')''"
      "cs = pre @ m \<or> cs = pre @ m @ [CHR 0x0A]"
      by blast
    then have "list_all symbol_char tok \<and> m = ''('' @ tok @ '')''
        \<and> (c # cs = (c # pre) @ m \<or> c # cs = (c # pre) @ m @ [CHR 0x0A])" by auto
    then show ?thesis by blast
  next
    case (Some m')
    with Cons.prems have "m' = m" by simp
    with Some match_here_Some[of "c # cs" m] obtain tok where
      "list_all symbol_char tok" "m = ''('' @ tok @ '')''"
      "c # cs = m \<or> c # cs = m @ [CHR 0x0A]"
      by blast
    then have "list_all symbol_char tok \<and> m = ''('' @ tok @ '')''
        \<and> (c # cs = [] @ m \<or> c # cs = [] @ m @ [CHR 0x0A])" by auto
    then show ?thesis by blast
  qed
qed

lemma strip_last:
  assumes a: "strip s = xs @ [c]"
  shows "\<not> isspace c"
proof -
  from a have "dropWhile isspace (rev (dropWhile isspace s)) = c # rev xs"
    unfolding strip_def
    by (metis rev.simps(2) rev_rev_ident rev_append rev_singleton_conv append_Nil)
  then show ?thesis by (metis hd_dropWhile list.sel(1) list.distinct(1))
qed

lemma remove_parens:
  assumes a: "list_all symbol_char tok"
  shows "replace '')'' [] (replace ''('' [] (''('' @ tok @ '')'')) = tok"
proof -
  from a have "\<forall>x\<in>set tok. x \<noteq> CHR ''('' \<and> x \<noteq> CHR '')''"
    using symbol_char_not_paren by (auto simp: list_all_iff)
  then have "filter (\<lambda>x. x \<noteq> CHR ''('') tok = tok" "filter (\<lambda>x. x \<noteq> CHR '')'') tok = tok"
    by (simp_all add: filter_id_conv)
  then show ?thesis by (simp add: replace_single)
qed

lemma extract_symbol_found:
  assumes "list_all symbol_char tok" and "strip t = pre @ ''('' @ tok @ '')''"
  shows "extract_symbol t = Some tok"
proof -
  have "t \<noteq> []" using assms(2) by (auto simp: strip_def)
  moreover have "pattern_search (strip t) = Some (''('' @ tok @ '')'')"
    using assms pattern_search_token by simp
  ultimately show ?thesis
    using remove_parens[OF assms(1)] by (simp add: extract_symbol_def)
qed

lemma extract_symbol_Some:
  assumes "extract_symbol t = Some v"
  shows "\<exists>pre tok. list_all symbol_char tok \<and> strip t = pre @ ''('' @ tok @ '')''"
proof -
  from assms obtain m where m: "pattern_search (strip t) = Some m"
    by (auto simp: extract_symbol_def split: if_splits option.splits)
  from pattern_search_Some[OF m] obtain pre tok where
    tok: "list_all symbol_char tok" and mm: "m = ''('' @ tok @ '')''"
    and alt: "strip t = pre @ m \<or> strip t = pre @ m @ [CHR 0x0A]"
    by blast
  have "strip t \<noteq> pre @ m @ [CHR 0x0A]"
  proof
    assume "strip t = pre @ m @ [CHR 0x0A]"
    then have "strip t = (pre @ m) @ [CHR 0x0A]" by simp
    from strip_last[OF this] show False by (simp add: isspace_def)
  qed
  with alt mm tok show ?thesis by blast
qed

lemma read_symbol_single: "read_symbol [t] = extract_symbol t"
  by (simp add: read_symbol_def split: option.splits)

section \<open>The query functions on a catalog\<close>

lemma set_unique: "set (unique xs) = set xs"
  by (induction xs rule: unique.induct) auto

lemma distinct_unique: "distinct (unique xs)"
  by (induction xs rule: unique.induct) (auto simp: set_unique)

lemma unique_snoc:
  "unique (xs @ [x]) = (if x \<in> set xs then unique xs else unique xs @ [x])"
proof (induction xs rule: unique.induct)
  case 1
  then show ?case by simp
next
  case (2 a xs)
  show ?case
  proof (cases "x = a")
    case True
    then show ?thesis by simp
  next
    case False
    with 2 show ?thesis by simp
  qed
qed

lemma DataFrame_snd: "map snd (DataFrame rows) = rows"
  by (simp add: DataFrame_def enumerate_eq_zip)

lemma lower_Germany: "lower ''Germany'' = ''germany''"
  by code_simp

lemma lower_germany: "lower ''germany'' = ''germany''"
  by code_simp

lemma unidecode_germany: "unidecode t ''germany'' = ''germany''"
  by (simp add: unidecode_def)

section \<open>The requests of a build\<close>

lemma log_ok_Nil: "log_ok [] e"
  by (simp add: log_ok_def all200_def)

lemma log_ok_None: "log_ok new None = all200 new"
  by (simp add: log_ok_def)

lemma all200_append: "all200 (xs @ ys) = (all200 xs \<and> all200 ys)"
  by (simp add: all200_def)

lemma log_ok_append:
  assumes a: "all200 new1" and b: "log_ok new2 e"
  shows "log_ok (new1 @ new2) e"
proof (cases "all200 new2")
  case True
  with a show ?thesis by (simp add: log_ok_def all200_append)
next
  case False
  with b obtain pre url code where
    n: "new2 = pre @ [(url, code)]" and p: "all200 pre" and c: "code \<noteq> 200"
    and e: "e = Some (ConnectionError code)"
    unfolding log_ok_def by blast
  have "new1 @ new2 = (new1 @ pre) @ [(url, code)]" using n by simp
  moreover have "all200 (new1 @ pre)" using a p by (simp add: all200_append)
  ultimately show ?thesis using c e unfolding log_ok_def by blast
qed

lemma log_ok_bad:
  assumes "log_ok new e" and "(url, code) \<in> set new" and "code \<noteq> 200"
  shows "e = Some (ConnectionError code)"
proof -
  from assms(2,3) have "\<not> all200 new" by (auto simp: all200_def list_all_iff)
  with assms(1) obtain pre u c where
    n: "new = pre @ [(u, c)]" and p: "all200 pre" and e: "e = Some (ConnectionError c)"
    unfolding log_ok_def by blast
  from p assms(3) have "(url, code) \<notin> set pre" by (auto simp: all200_def list_all_iff)
  with assms(2) n have "(url, code) = (u, c)" by simp
  with e show ?thesis by simp
qed

lemma tidyI:
  "(\<And>s r s'. m s = (r, s') \<Longrightarrow>
      keep s' = keep s \<and> (\<exists>new. sent s' = sent s @ new \<and> log_ok new (failure r)))
   \<Longrightarrow> tidy keep m"
  by (simp add: tidy_def)

lemma tidyD:
  "tidy keep m \<Longrightarrow> m s = (r, s') \<Longrightarrow>
     keep s' = keep s \<and> (\<exists>new. sent s' = sent s @ new \<and> log_ok new (failure r))"
  by (simp add: tidy_def)

lemma tidy_return: "tidy keep (return a)"
  by (rule tidyI) (auto simp: return_def log_ok_Nil)

lemma tidy_raise: "tidy keep (raise e)"
  by (rule tidyI) (auto simp: raise_def log_ok_Nil)

lemma tidy_lift: "tidy keep (lift r)"
  by (rule tidyI) (auto simp: lift_def log_ok_Nil)

lemma tidy_continue: "tidy keep (continue a)"
  by (simp add: continue_def tidy_return)

lemma tidy_step:
  assumes m: "tidy keep m" and ms: "m s = (Inr a, s1)" and f: "tidy keep g" and fs: "g s1 = (r, s')"
  shows "keep s' = keep s \<and> (\<exists>new. sent s' = sent s @ new \<and> log_ok new (failure r))"
proof -
  from tidyD[OF m ms] obtain new1 where
    k1: "keep s1 = keep s" and l1: "sent s1 = sent s @ new1" and o1: "log_ok new1 (failure (Inr a))"
    by blast
  from o1 have o1': "all200 new1" by (simp add: failure_def log_ok_None)
  from tidyD[OF f fs] obtain new2 where
    k2: "keep s' = keep s1" and l2: "sent s' = sent s1 @ new2" and o2: "log_ok new2 (failure r)"
    by blast
  have "sent s' = sent s @ (new1 @ new2)" using l1 l2 by simp
  moreover have "log_ok (new1 @ new2) (failure r)" using o1' o2 by (rule log_ok_append)
  moreover have "keep s' = keep s" using k1 k2 by simp
  ultimately show ?thesis by blast
qed

lemma tidy_bind:
  assumes m: "tidy keep m" and f: "\<And>a. tidy keep (f a)"
  shows "tidy keep (bind_io m f)"
proof (rule tidyI)
  fix s r s'
  assume b: "bind_io m f s = (r, s')"
  obtain r1 s1 where ms: "m s = (r1, s1)" by (cases "m s")
  show "keep s' = keep s \<and> (\<exists>new. sent s' = sent s @ new \<and> log_ok new (failure r))"
  proof (cases r1)
    case (Inl e)
    with b ms have "r = Inl e" "s' = s1" by (simp_all add: bind_io_def)
    with tidyD[OF m ms] Inl show ?thesis by (simp add: failure_def)
  next
    case (Inr a)
    with b ms have "f a s1 = (r, s')" by (simp add: bind_io_def)
    with tidy_step[OF m _ f] ms Inr show ?thesis by blast
  qed
qed

lemma tidy_for_loop:
  assumes st: "\<And>x acc. tidy keep (step x acc)"
  shows "tidy keep (for_loop xs step acc)"
proof (induction xs arbitrary: acc)
  case Nil
  show ?case by (rule tidyI) (auto simp: log_ok_Nil)
next
  case (Cons x xs)
  show ?case
  proof (rule tidyI)
    fix s r s'
    assume b: "for_loop (x # xs) step acc s = (r, s')"
    obtain r1 s1 where ms: "step x acc s = (r1, s1)" by (cases "step x acc s")
    show "keep s' = keep s \<and> (\<exists>new. sent s' = sent s @ new \<and> log_ok new (failure r))"
    proof (cases r1)
      case (Inl e)
      with b ms have "r = Inl e" "s' = s1" by simp_all
      with tidyD[OF st ms] Inl show ?thesis by (simp add: failure_def)
    next
      case (Inr p)
      obtain stop acc' where p: "p = (stop, acc')" by (cases p)
      show ?thesis
      proof (cases stop)
        case True
        with b ms Inr p have "r = Inr acc'" "s' = s1" by simp_all
        with tidyD[OF st ms] Inr show ?thesis by (simp add: failure_def)
      next
        case False
        with b ms Inr p have "for_loop xs step acc' s1 = (r, s')" by simp
        with tidy_step[OF st _ Cons.IH] ms Inr show ?thesis by blast
      qed
    qed
  qed
qed

lemma tidy_fetch_page:
  assumes k: "\<And>s l. keep (s\<lparr>sent := l\<rparr>) = keep s"
  shows "tidy keep (fetch_page E url)"
proof (rule tidyI)
  fix s r s'
  assume b: "fetch_page E url s = (r, s')"
  let ?req = "http E (length (sent s)) url"
  have s': "s' = s\<lparr>sent := sent s @ [(url, status_code ?req)]\<rparr>"
    using b by (auto simp: fetch_page_def bind_io_def requests_get_def Let_def raise_def
        return_def split: if_splits)
  have r: "r = (if status_code ?req \<noteq> 200 then Inl (ConnectionError (status_code ?req))
               else Inr (body ?req))"
    using b by (auto simp: fetch_page_def bind_io_def requests_get_def Let_def raise_def
        return_def split: if_splits)
  have "log_ok [(url, status_code ?req)] (failure r)"
    by (simp add: r log_ok_def all200_def failure_def)
  with s' k show "keep s' = keep s \<and> (\<exists>new. sent s' = sent s @ new \<and> log_ok new (failure r))"
    by simp
qed

lemma tidy_if: "tidy keep a \<Longrightarrow> tidy keep b \<Longrightarrow> tidy keep (if c then a else b)"
  by simp

lemma tidy_case_prod: "(\<And>a b. tidy keep (f a b)) \<Longrightarrow> tidy keep (case_prod f p)"
  by (cases p) simp

lemma tidy_case_prod2: "(\<And>a b. tidy keep (f a b x)) \<Longrightarrow> tidy keep (case_prod f p x)"
  by (cases p) simp

lemmas tidy_intros = tidy_return tidy_raise tidy_lift tidy_continue tidy_bind tidy_for_loop
  tidy_if tidy_case_prod tidy_case_prod2

lemma tidy_retrieve_index_info:
  assumes k: "\<And>s l. keep (s\<lparr>sent := l\<rparr>) = keep s"
  shows "tidy keep (retrieve_index_info E t)"
  unfolding retrieve_index_info_def
  by (intro tidy_intros tidy_fetch_page k)

lemma tidy_scan_anchors:
  assumes k: "\<And>s l. keep (s\<lparr>sent := l\<rparr>) = keep s"
  shows "tidy keep (scan_anchors E c cl mk i els results)"
  unfolding scan_anchors_def Let_def
  by (intro tidy_intros tidy_retrieve_index_info k)

lemma tidy_pass1:
  assumes k: "\<And>s l. keep (s\<lparr>sent := l\<rparr>) = keep s"
  shows "tidy keep (pass1 E tm countries results)"
  unfolding pass1_def
  by (intro tidy_intros tidy_fetch_page tidy_scan_anchors k)

lemma tidy_pass2:
  assumes k: "\<And>s l. keep (s\<lparr>sent := l\<rparr>) = keep s"
  shows "tidy keep (pass2 E tm countries results)"
  unfolding pass2_def
  by (intro tidy_intros tidy_fetch_page tidy_scan_anchors k)

lemma tidy_pass3:
  assumes k: "\<And>s l. keep (s\<lparr>sent := l\<rparr>) = keep s"
  shows "tidy keep (pass3 E tm results)"
  unfolding pass3_def pass3_filter_def pass3_row_def
  by (intro tidy_intros tidy_fetch_page tidy_scan_anchors k)

lemma tidy_write_index_countries:
  assumes k: "\<And>s x. keep (s\<lparr>index_countries_csv := x\<rparr>) = keep s"
  shows "tidy keep (write_index_countries rows)"
  by (rule tidyI) (auto simp: write_index_countries_def k log_ok_Nil)

lemma tidy_retrieve_index_countries:
  assumes k: "\<And>s l. keep (s\<lparr>sent := l\<rparr>) = keep s"
    and k2: "\<And>s x. keep (s\<lparr>index_countries_csv := x\<rparr>) = keep s"
  shows "tidy keep (retrieve_index_countries E tm)"
proof (cases tm)
  case PyNone
  then show ?thesis by (simp add: retrieve_index_countries_def tidy_raise)
next
  case (Py b)
  show ?thesis
    unfolding retrieve_index_countries_def Py pyarg.case
    by (intro tidy_intros tidy_fetch_page tidy_write_index_countries k k2)
next
  case PyOther
  then show ?thesis by (simp add: retrieve_index_countries_def tidy_raise)
qed

lemma tidy_load_global_countries:
  assumes k: "\<And>s l. keep (s\<lparr>sent := l\<rparr>) = keep s"
    and k2: "\<And>s x. keep (s\<lparr>index_countries_csv := x\<rparr>) = keep s"
  shows "tidy keep (load_global_countries E)"
proof (rule tidyI)
  fix s r s'
  assume a: "load_global_countries E s = (r, s')"
  have t: "tidy keep (bind_io (retrieve_index_countries E (Py False)) (\<lambda>df. return (Some df)))"
    by (intro tidy_intros tidy_retrieve_index_countries k k2)
  show "keep s' = keep s \<and> (\<exists>new. sent s' = sent s @ new \<and> log_ok new (failure r))"
  proof (cases "global_indices_countries_csv s")
    case None
    with a tidyD[OF t] show ?thesis by (simp add: load_global_countries_def)
  next
    case (Some rows)
    with a tidyD[OF tidy_return] show ?thesis by (simp add: load_global_countries_def)
  qed
qed

lemma tidy_collect:
  assumes k: "\<And>s l. keep (s\<lparr>sent := l\<rparr>) = keep s"
    and k2: "\<And>s x. keep (s\<lparr>index_countries_csv := x\<rparr>) = keep s"
  shows "tidy keep (collect E tm)"
proof (rule tidyI)
  fix s r s'
  assume a: "collect E tm s = (r, s')"
  show "keep s' = keep s \<and> (\<exists>new. sent s' = sent s @ new \<and> log_ok new (failure r))"
  proof (cases "index_countries_csv s")
    case None
    with a tidyD[OF tidy_raise] show ?thesis by (simp add: collect_def)
  next
    case (Some rows)
    have "tidy keep (bind_io (pass1 E tm (map fst rows) []) (\<lambda>results.
          bind_io (load_global_countries E) (\<lambda>countries.
            case countries of
              None \<Rightarrow> raise (IOError ''ERR#0036'')
            | Some df \<Rightarrow>
                bind_io (pass2 E tm df results) (\<lambda>results.
                pass3 E tm results))))"
      apply (intro tidy_intros tidy_pass1 tidy_load_global_countries k k2)
      subgoal for a b by (cases b) (simp_all add: tidy_raise tidy_bind tidy_pass2 tidy_pass3 k)
      done
    with a Some tidyD show ?thesis by (simp add: collect_def) blast
  qed
qed

lemma finalize_result:
  assumes "finalize tm results s1 = (r, s')"
  shows "sent s' = sent s1
     \<and> ((\<exists>e. r = Inl e) \<longrightarrow> s' = s1)
     \<and> (\<forall>df. r = Inr df \<longrightarrow>
           indices_csv s' = (if \<not> tm then Some (map snd df) else indices_csv s1))"
  using assms by (auto simp: finalize_def Let_def split: if_splits)

lemma retrieve_indices_Py:
  "retrieve_indices E (Py tm) = bind_io (collect E tm) (finalize tm)"
  by (simp add: retrieve_indices_def)

lemma retrieve_indices_cases:
  assumes "retrieve_indices E (Py tm) s = (r, s')"
  shows "(\<exists>e. collect E tm s = (Inl e, s') \<and> r = Inl e)
     \<or> (\<exists>results s1. collect E tm s = (Inr results, s1) \<and> finalize tm results s1 = (r, s'))"
proof -
  obtain r1 s1 where c: "collect E tm s = (r1, s1)" by (cases "collect E tm s")
  show ?thesis
  proof (cases r1)
    case (Inl e)
    with assms c show ?thesis by (simp add: retrieve_indices_Py bind_io_def)
  next
    case (Inr results)
    with assms c show ?thesis by (simp add: retrieve_indices_Py bind_io_def)
  qed
qed

lemma spain_run:
  "retrieve_indices silent_env (Py False) spain_files =
     (Inl (ConnectionError 404),
      spain_files\<lparr>sent := [(''https://www.investing.com/indices/spain-indices?&majorIndices=on'', 404)]\<rparr>)"
  by (simp add: retrieve_indices_def collect_def bind_io_def pass1_def pass1_filters_def
      fetch_page_def requests_get_def raise_def silent_env_def spain_files_def replace_def)

section \<open>The table of a build\<close>








lemma reset_index_snd: "map snd (reset_index df) = map snd df"
  by (simp add: reset_index_def enumerate_eq_zip)





section \<open>A build against a provider that lists two indices\<close>

lemma extract_symbol_example: "extract_symbol ''Example Index (IDX)'' = Some ''IDX''"
  by (simp add: extract_symbol_def strip_def isspace_def match_here_def symbol_char_def
      replace_def)

lemma info_listing:
  "retrieve_index_info listing_env t s =
     (Inr \<lparr>info_currency = Some ''USD'', info_symbol = Some ''IDX''\<rparr>,
      s\<lparr>sent := sent s @ [(''https://www.investing.com/indices/'' @ t, 200)]\<rparr>)"
  by (simp add: retrieve_index_info_def fetch_page_def bind_io_def requests_get_def return_def
      listing_env_def listing_page_def read_currency_def read_symbol_def extract_symbol_example)

lemma region_japan: "map_region (translit listing_env) (last_flag [Some ''Japan'']) = Inr ''japan''"
  by code_simp


lemma scan_japan:
  "scan_anchors listing_env c cl ''global_indices'' ''178''
     [\<lparr>a_href = Some ''/indices/japan-ni225'', a_title = Some ''Nikkei 225 (CFD)'',
       a_text = Some ''Nikkei 225''\<rparr>] results s =
   (Inr (results @ [\<lparr>country = c, name = ''Nikkei 225'', full_name = ''Nikkei 225'',
            symbol = Some ''IDX'', currency = Some ''USD'', class' = cl,
            market = ''global_indices'', tag = ''japan-ni225'', id' = ''178''\<rparr>]),
    s\<lparr>sent := sent s @ [(''https://www.investing.com/indices/japan-ni225'', 200)]\<rparr>)"
  by (simp add: scan_anchors_def bind_io_def lift_def attr_def py_str_def info_listing
      continue_def return_def replace_def strip_def isspace_def Let_def)













section \<open>A build against a provider whose rows have no flag\<close>

lemma flagless_run:
  "retrieve_indices flagless_env (Py False) fresh_files =
     (Inl AttributeError,
      fresh_files\<lparr>sent :=
        [(''https://www.investing.com/indices/global-indices?majorIndices=on&r_id='', 200)]\<rparr>)"
proof -
  have 1: "index_countries_csv fresh_files = Some []"
    and 2: "global_indices_countries_csv fresh_files = Some []"
    and 3: "sent fresh_files = []"
    by (simp_all add: fresh_files_def)
  have p1: "pass1 flagless_env False [] [] fresh_files = (Inr [], fresh_files)"
    by (simp add: pass1_def)
  have lg: "load_global_countries flagless_env fresh_files = (Inr (Some []), fresh_files)"
    by (simp add: load_global_countries_def 2 return_def DataFrame_def)
  have p2: "pass2 flagless_env False [] [] fresh_files = (Inr [], fresh_files)"
    by (simp add: pass2_def)
  have r: "pass3_row flagless_env cl
       \<lparr>row_id = Some ''pair_178'', flag_titles = [],
          anchors = [\<lparr>a_href = Some ''/indices/japan-ni225'',
                      a_title = Some ''Nikkei 225 (CFD)'', a_text = Some ''Nikkei 225''\<rparr>]\<rparr>
       results s = (Inl AttributeError, s)" for cl results s
    by (simp add: pass3_row_def bind_io_def lift_def attr_def map_region_def last_flag_def)
  have p3: "pass3 flagless_env False [] fresh_files =
     (Inl AttributeError,
      fresh_files\<lparr>sent :=
        [(''https://www.investing.com/indices/global-indices?majorIndices=on&r_id='', 200)]\<rparr>)"
  proof -
    have h: "http flagless_env n u = \<lparr>status_code = 200, body = flagless_page\<rparr>" for n u
      by (simp add: flagless_env_def)
    have c: "cr_12 flagless_page =
       [\<lparr>row_id = Some ''pair_178'', flag_titles = [],
          anchors = [\<lparr>a_href = Some ''/indices/japan-ni225'',
                      a_title = Some ''Nikkei 225 (CFD)'', a_text = Some ''Nikkei 225''\<rparr>]\<rparr>]"
      by (simp add: flagless_page_def)
    show ?thesis
      by (simp add: pass3_def pass3_filters_def pass3_filter_def fetch_page_def requests_get_def
          bind_io_def return_def h c r 3)
  qed
  show ?thesis
    by (simp add: retrieve_indices_def collect_def 1 bind_io_def p1 lg p2 p3)
qed

lemma reset_index_fst': "map fst (reset_index df) = [0..<length (reset_index df)]"
  by (simp add: reset_index_def enumerate_eq_zip)

lemma lower_france: "lower ''France'' = ''france''"
  by code_simp

section \<open>Builds without country files\<close>

lemma retrieve_indices_no_country_file:
  "index_countries_csv s = None \<Longrightarrow>
     retrieve_indices E (Py tm) s = (Inl (IOError ''ERR#0036''), s)"
  by (simp add: retrieve_indices_def collect_def bind_io_def raise_def)

lemma retrieve_index_countries_not_empty:
  assumes a: "retrieve_index_countries E (Py b) s = (Inr df, s')"
  shows "df \<noteq> []"
  using a
  by (auto simp: retrieve_index_countries_def bind_io_def raise_def return_def
      write_index_countries_def DataFrame_def enumerate_eq_zip
      split: prod.splits sum.splits if_splits)

lemma lister_listing:
  "retrieve_index_countries listing_env (Py False) first_file_only =
     (Inl (RuntimeError ''ERR#0035''),
      first_file_only\<lparr>sent := [(''https://www.investing.com/indices/'', 200)]\<rparr>)"
proof -
  have h: "http listing_env n u = \<lparr>status_code = 200, body = listing_page\<rparr>" for n u
    by (simp add: listing_env_def)
  have c: "country_options listing_page = []" by (simp add: listing_page_def)
  have s: "sent first_file_only = []" by (simp add: first_file_only_def)
  show ?thesis
    by (simp add: retrieve_index_countries_def fetch_page_def requests_get_def bind_io_def
        return_def raise_def h c s)
qed

lemma lower_Spain: "lower (strip '' Spain '') = ''spain''"
  by code_simp

text \<open>
  Line 141 calls \<open>retrieve_index_countries\<close> where the file of the second pass is
  missing. Its rows have no \<open>id\<close>, so the second pass fails on its first row: no build
  succeeds without \<open>global_indices_countries.csv\<close>.
\<close>

lemma lister_rows:
  assumes a: "retrieve_index_countries E (Py b) s = (Inr df, s')"
  shows "\<exists>c n rest. df = (0, CountryEntry c n) # rest"
proof -
  from a obtain countries where n: "countries \<noteq> []"
    and d: "df = DataFrame (map (\<lambda>(c, n). CountryEntry c n) countries)"
    by (auto simp: retrieve_index_countries_def bind_io_def raise_def return_def
        write_index_countries_def split: prod.splits sum.splits if_splits)
  from n obtain c n' rest where "countries = (c, n') # rest"
    by (cases countries) auto
  with d show ?thesis by (simp add: DataFrame_def)
qed

lemma pass2_lister_rows:
  "pass2 E tm ((i, CountryEntry c n) # rest) results s = (Inl (KeyError ''id''), s)"
  by (simp add: pass2_def pass2_filters_def bind_io_def lift_def)

lemma global_file_absent_never_succeeds:
  assumes g: "global_indices_countries_csv s = None"
  shows "\<exists>e s'. retrieve_indices E (Py tm) s = (Inl e, s')"
proof (cases "index_countries_csv s")
  case None
  then show ?thesis using retrieve_indices_no_country_file by blast
next
  case (Some rows)
  obtain r1 s1 where p: "pass1 E tm (map fst rows) [] s = (r1, s1)"
    by (cases "pass1 E tm (map fst rows) [] s")
  have "tidy global_indices_countries_csv (pass1 E tm (map fst rows) [])"
    by (rule tidy_pass1) simp
  from tidyD[OF this p] g have g1: "global_indices_countries_csv s1 = None" by simp
  show ?thesis
  proof (cases r1)
    case (Inl e)
    with Some p show ?thesis
      by (simp add: retrieve_indices_def collect_def bind_io_def)
  next
    case (Inr results)
    obtain r2 s2 where l: "retrieve_index_countries E (Py False) s1 = (r2, s2)"
      by (cases "retrieve_index_countries E (Py False) s1")
    show ?thesis
    proof (cases r2)
      case (Inl e)
      with Some p Inr g1 l show ?thesis
        by (simp add: retrieve_indices_def collect_def bind_io_def load_global_countries_def)
    next
      case df: (Inr df)
      with l lister_rows obtain c n rest where "df = (0, CountryEntry c n) # rest"
        by blast
      with Some p Inr g1 l df show ?thesis
        by (simp add: retrieve_indices_def collect_def bind_io_def load_global_countries_def
            return_def pass2_lister_rows)
    qed
  qed
qed

section \<open>The records of a pass\<close>

lemma growsD:
  "grows Q acc m \<Longrightarrow> m s = (Inr acc', s') \<Longrightarrow> \<exists>new. acc' = acc @ new \<and> list_all Q new"
  unfolding grows_def by blast

lemma grows_stepD:
  "grows_step Q acc m \<Longrightarrow> m s = (Inr (stop, acc'), s') \<Longrightarrow>
     \<exists>new. acc' = acc @ new \<and> list_all Q new"
  unfolding grows_step_def by blast

lemma grows_for_loop:
  assumes step: "\<And>x a. grows_step Q a (step x a)"
  shows "grows Q acc (for_loop xs step acc)"
  unfolding grows_def
proof (intro allI impI)
  fix s acc' s'
  assume run: "for_loop xs step acc s = (Inr acc', s')"
  then show "\<exists>new. acc' = acc @ new \<and> list_all Q new"
  proof (induction xs arbitrary: acc s)
    case Nil
    then show ?case by simp
  next
    case (Cons x xs)
    obtain r1 s1 where st: "step x acc s = (r1, s1)" by (cases "step x acc s")
    show ?case
    proof (cases r1)
      case (Inl e)
      with Cons.prems st show ?thesis by simp
    next
      case (Inr p)
      obtain b acc1 where p: "p = (b, acc1)" by (cases p)
      from grows_stepD[OF step, of x acc s b acc1 s1] st Inr p obtain new1 where
        n1: "acc1 = acc @ new1" and q1: "list_all Q new1" by auto
      show ?thesis
      proof (cases b)
        case True
        with Cons.prems st Inr p have "acc' = acc1" by simp
        with n1 q1 show ?thesis by blast
      next
        case False
        with Cons.prems st Inr p have "for_loop xs step acc1 s1 = (Inr acc', s')" by simp
        from Cons.IH[OF this] obtain new2 where
          "acc' = acc1 @ new2" and "list_all Q new2" by blast
        with n1 q1 have "acc' = acc @ (new1 @ new2) \<and> list_all Q (new1 @ new2)" by simp
        then show ?thesis by blast
      qed
    qed
  qed
qed



lemma grows_step_continue: "grows_step Q acc (continue acc)"
  unfolding grows_step_def by (auto simp: continue_def return_def)

lemma grows_step_bind: "(\<And>a. grows_step Q acc (f a)) \<Longrightarrow> grows_step Q acc (bind_io m f)"
  unfolding grows_step_def
  by (auto simp: bind_io_def split: prod.splits sum.splits)


lemma grows_step_if:
  "grows_step Q acc a \<Longrightarrow> grows_step Q acc b \<Longrightarrow> grows_step Q acc (if c then a else b)"
  by simp


lemma grows_step_append:
  "Q r \<Longrightarrow> grows_step Q acc (continue (acc @ [r]))"
  unfolding grows_step_def by (auto simp: continue_def return_def)

lemma grows_weaken:
  "grows Q acc m \<Longrightarrow> (\<And>r. Q r \<Longrightarrow> Q' r) \<Longrightarrow> grows Q' acc m"
  unfolding grows_def by (auto simp: list_all_iff) blast

lemma grows_scan_anchors:
  "grows (\<lambda>r. country r = c \<and> class' r = cl \<and> market r = mk) results
     (scan_anchors E c cl mk i els results)"
  unfolding scan_anchors_def Let_def
  by (intro grows_for_loop grows_step_if grows_step_continue grows_step_bind grows_step_append)
    simp







lemma pass3_row_country:
  assumes "pass3_row E cl elements results s = (Inr results', s')"
  shows "\<exists>region new. map_region (translit E) (last_flag (flag_titles elements)) = Inr region
     \<and> results' = results @ new \<and> list_all (\<lambda>r. country r = region) new"
proof -
  from assms obtain rid region s1 where
    m: "map_region (translit E) (last_flag (flag_titles elements)) = Inr region"
    and sc: "scan_anchors E region cl ''global_indices'' (replace ''pair_'' [] rid)
         (anchors elements) results s1 = (Inr results', s')"
    by (auto simp: pass3_row_def bind_io_def lift_def split: prod.splits sum.splits)
  have "grows (\<lambda>r. country r = region) results
     (scan_anchors E region cl ''global_indices'' (replace ''pair_'' [] rid)
         (anchors elements) results)"
    by (rule grows_weaken[OF grows_scan_anchors]) simp
  from growsD[OF this sc] m show ?thesis by blast
qed



lemma pass3_row_japan:
  "pass3_row listing_env cl
     \<lparr>row_id = Some ''pair_178'', flag_titles = [Some ''Japan''],
      anchors = [\<lparr>a_href = Some ''/indices/japan-ni225'',
                  a_title = Some ''Nikkei 225 (CFD)'', a_text = Some ''Nikkei 225''\<rparr>]\<rparr>
     results s =
   (Inr (results @ [listed ''japan'' cl]),
    s\<lparr>sent := sent s @ [(''https://www.investing.com/indices/japan-ni225'', 200)]\<rparr>)"
  by (simp add: pass3_row_def bind_io_def lift_def attr_def replace_def region_japan scan_japan
      listed_def)

section \<open>The load of the catalog\<close>

text \<open>
  What the query functions load, for every reader of cells, and what \<open>pandas_cell\<close>
  reads from the example catalogs.
\<close>

lemma read_csv_Some:
  assumes "read_csv E rows = Some df"
  shows "map (\<lambda>r. country_cell (snd r)) df =
     map (read_cell E (map country rows)) [0..<length rows]"
proof -
  have "map (\<lambda>r. country_cell (snd r)) df = map country_cell (map snd df)" by simp
  also have "map snd df = map (\<lambda>i.
       \<lparr>country_cell = read_cell E (map country rows) i,
        name_cell = read_cell E (map name rows) i,
        full_name_cell = read_cell E (map full_name rows) i,
        symbol_cell = read_cell E (map (\<lambda>r. written (symbol r)) rows) i,
        currency_cell = read_cell E (map (\<lambda>r. written (currency r)) rows) i,
        class_cell = read_cell E (map class' rows) i,
        market_cell = read_cell E (map market rows) i,
        tag_cell = read_cell E (map tag rows) i,
        id_cell = read_cell E (map id' rows) i\<rparr>) [0..<length rows]"
    using assms unfolding read_csv_def by (auto simp only: option.inject DataFrame_snd)
  finally show ?thesis by (simp add: comp_def)
qed

lemma read_csv_never_None: "\<exists>df. read_csv E rows = Some df"
  by (simp add: read_csv_def)

lemma read_csv_reader: "read_cell E = read_cell E' \<Longrightarrow> read_csv E rows = read_csv E' rows"
  by (simp add: read_csv_def)

lemma index_countries_as_list_present:
  assumes a: "indices_csv s = Some rows"
  shows "index_countries_as_list E s =
     (Inr (unique (map (read_cell E (map country rows)) [0..<length rows])), s)"
proof -
  obtain df where d: "read_csv E rows = Some df" using read_csv_never_None by blast
  from read_csv_Some[OF d] a d show ?thesis
    by (simp add: index_countries_as_list_def return_def)
qed

lemma load_indices_present:
  "indices_csv s = Some rows \<Longrightarrow> load_indices E s = (Inr (read_csv E rows), s)"
  by (simp add: load_indices_def return_def)

lemma load_indices_loaded:
  assumes a: "load_indices E s = (Inr loaded, s1)"
  shows "\<exists>full rows1. loaded = Some full \<and> indices_csv s1 = Some rows1
     \<and> (\<forall>rows. indices_csv s = Some rows \<longrightarrow> s1 = s \<and> Some full = read_csv E rows)
     \<and> (indices_csv s = None \<longrightarrow>
          (\<exists>df. retrieve_indices E (Py False) s = (Inr df, s1)
             \<and> full = map (\<lambda>(i, r). (i, in_memory r)) df \<and> rows1 = map snd df))"
proof (cases "indices_csv s")
  case (Some rows)
  with a load_indices_present[OF Some, of E]
  have l: "loaded = read_csv E rows" and s: "s1 = s" by simp_all
  obtain full where f: "read_csv E rows = Some full" using read_csv_never_None by blast
  with l s Some show ?thesis by simp
next
  case None
  with a have b: "bind_io (retrieve_indices E (Py False))
      (\<lambda>df. return (Some (map (\<lambda>(i, r). (i, in_memory r)) df))) s = (Inr loaded, s1)"
    by (simp add: load_indices_def)
  obtain r0 s0 where r: "retrieve_indices E (Py False) s = (r0, s0)"
    by (cases "retrieve_indices E (Py False) s")
  with b obtain df where d: "r0 = Inr df"
    and l: "loaded = Some (map (\<lambda>(i, r). (i, in_memory r)) df)" and s: "s1 = s0"
    by (cases r0) (auto simp: bind_io_def return_def)
  from retrieve_indices_cases[of E False s r0 s0] r d obtain results s2 where
    "finalize False results s2 = (Inr df, s0)" by auto
  from finalize_result[OF this] have "indices_csv s0 = Some (map snd df)" by simp
  with l s None r d show ?thesis by simp
qed

lemma where_country_rows:
  "map snd (where_country n (drop_columns full)) =
     filter (\<lambda>r. country_cell r = Str n) (map (\<lambda>(i, r). drop_tag_id r) full)"
  by (induction full) (auto simp: where_country_def drop_columns_def)

lemma names_where_country:
  "map (\<lambda>(i, r). name_cell r) (where_country n (drop_columns full)) =
     map name_cell (filter (\<lambda>r. country_cell r = Str n) (map (\<lambda>(i, r). drop_tag_id r) full))"
  by (induction full) (auto simp: where_country_def drop_columns_def)

lemma indices_as_df_loaded:
  assumes a: "load_indices E s = (Inr (Some full), s1)"
    and ic: "index_countries_as_list E s1 = (Inr cs, s1)"
  shows "indices_as_df E (Py c) s =
      (Inr (if Str (unidecode (translit E) (lower c)) \<in> set cs
            then Some (reset_index
                   (where_country (unidecode (translit E) (lower c)) (drop_columns full)))
            else None), s1)"
  unfolding indices_as_df_def using a ic by (simp add: bind_io_def return_def)

lemma indices_as_list_loaded:
  assumes a: "load_indices E s = (Inr (Some full), s1)"
    and ic: "index_countries_as_list E s1 = (Inr cs, s1)"
  shows "indices_as_list E (Py c) s =
      (Inr (if Str (unidecode (translit E) (lower c)) \<in> set cs
            then Some (map (\<lambda>(i, r). name_cell r)
                   (where_country (unidecode (translit E) (lower c)) (drop_columns full)))
            else None), s1)"
  unfolding indices_as_list_def using a ic by (simp add: bind_io_def return_def)

lemma frame_of_one:
  assumes "map snd df = [x]" and "map fst df = [0..<length df]"
  shows "df = [(0, x)]"
proof -
  from assms(1) have "length (map snd df) = 1" by simp
  then have "length df = 1" by simp
  then obtain p where d: "df = [p]" by (cases df) auto
  with assms show ?thesis by (cases p) simp
qed

lemma unidecode_empty: "unidecode t (lower []) = []"
  by (simp add: unidecode_def lower_def)

lemma read_csv_three:
  "read_csv silent_env [dax, no_country, nikkei] =
     Some [(0, dax_cells), (Suc 0, no_country_cells), (Suc (Suc 0), nikkei_cells)]"
  by code_simp

lemma read_csv_two:
  "read_csv silent_env [dax, nikkei] = Some [(0, dax_cells), (Suc 0, nikkei_cells)]"
  by code_simp

lemma countries_three:
  "unique (map (read_cell silent_env (map country [dax, no_country, nikkei]))
     [0..<length [dax, no_country, nikkei]]) = [Str ''germany'', NaN, Str ''japan'']"
  by code_simp

lemma countries_two:
  "unique (map (pandas_cell (map country [dax, nikkei])) [0..<length [dax, nikkei]]) =
     [Str ''germany'', Str ''japan'']"
  by code_simp

lemma countries_repeated:
  "unique (map (pandas_cell (map country [nikkei, dax, nikkei]))
       [0..<length [nikkei, dax, nikkei]]) =
     [Str ''japan'', Str ''germany'']"
  by code_simp

lemma countries_of_cells:
  "country_cell (drop_tag_id dax_cells) = Str ''germany''"
  "country_cell (drop_tag_id no_country_cells) = NaN"
  "country_cell (drop_tag_id nikkei_cells) = Str ''japan''"
  "name_cell (drop_tag_id dax_cells) = Str ''DAX''"
  by code_simp+

section \<open>The claims\<close>



text \<open>
  Claim C2. Every request of a build is in the log it appends. If a request of the log
  got a status other than 200, the build has failed with the \<open>ConnectionError\<close> of
  that status and the catalog file is what it was. A build that fails, for any reason,
  leaves the catalog file as it was. A build that returns a table has written that
  table to the catalog file, unless it ran with \<open>test_mode=True\<close>, which writes
  nothing.
\<close>

theorem build_aborts_on_bad_status:
  assumes a: "retrieve_indices E test_mode s = (r, s')"
  shows "\<exists>new. sent s' = sent s @ new
     \<and> (\<forall>(url, code) \<in> set new. code \<noteq> 200 \<longrightarrow>
           r = Inl (ConnectionError code) \<and> indices_csv s' = indices_csv s)
     \<and> ((\<exists>e. r = Inl e) \<longrightarrow> indices_csv s' = indices_csv s)
     \<and> (\<forall>df. r = Inr df \<longrightarrow>
           indices_csv s' = (if test_mode = Py False then Some (map snd df) else indices_csv s))"
proof (cases test_mode)
  case PyNone
  with a have "s' = s" "r = Inl (ValueError ''ERR#0041'')"
    by (simp_all add: retrieve_indices_def raise_def)
  then show ?thesis by simp
next
  case PyOther
  with a have "s' = s" "r = Inl (ValueError ''ERR#0041'')"
    by (simp_all add: retrieve_indices_def raise_def)
  then show ?thesis by simp
next
  case (Py tm)
  have t: "tidy indices_csv (collect E tm)"
    by (rule tidy_collect) simp_all
  from a Py retrieve_indices_cases[of E tm s r s']
  consider (failed) e where "collect E tm s = (Inl e, s')" "r = Inl e"
    | (collected) results s1 where "collect E tm s = (Inr results, s1)"
        "finalize tm results s1 = (r, s')"
    by blast
  then show ?thesis
  proof cases
    case failed
    from tidyD[OF t failed(1)] obtain new where
      k: "indices_csv s' = indices_csv s" and l: "sent s' = sent s @ new"
      and o: "log_ok new (Some e)"
      by (auto simp: failure_def)
    have "\<forall>(url, code) \<in> set new. code \<noteq> 200 \<longrightarrow>
           r = Inl (ConnectionError code) \<and> indices_csv s' = indices_csv s"
      using log_ok_bad[OF o] k failed(2) by auto
    with k l failed(2) show ?thesis by auto
  next
    case collected
    from tidyD[OF t collected(1)] obtain new where
      k: "indices_csv s1 = indices_csv s" and l: "sent s1 = sent s @ new"
      and o: "all200 new"
      by (auto simp: failure_def log_ok_None)
    from finalize_result[OF collected(2)] have
      f1: "sent s' = sent s1" and f2: "(\<exists>e. r = Inl e) \<longrightarrow> s' = s1"
      and f3: "\<forall>df. r = Inr df \<longrightarrow>
           indices_csv s' = (if \<not> tm then Some (map snd df) else indices_csv s1)"
      by blast+
    have "\<forall>(url, code) \<in> set new. code = 200"
      using o by (auto simp: all200_def list_all_iff)
    then have "\<forall>(url, code) \<in> set new. code \<noteq> 200 \<longrightarrow>
           r = Inl (ConnectionError code) \<and> indices_csv s' = indices_csv s"
      by auto
    moreover have "sent s' = sent s @ new" using f1 l by simp
    moreover have "(\<exists>e. r = Inl e) \<longrightarrow> indices_csv s' = indices_csv s" using f2 k by auto
    moreover have "\<forall>df. r = Inr df \<longrightarrow>
           indices_csv s' = (if test_mode = Py False then Some (map snd df) else indices_csv s)"
      using f3 k Py by auto
    ultimately show ?thesis by blast
  qed
qed

theorem build_aborts_on_bad_status_witness:
  "fst (retrieve_indices silent_env (Py False) spain_files) = Inl (ConnectionError 404)
   \<and> indices_csv (snd (retrieve_indices silent_env (Py False) spain_files)) = Some [dax]"
proof -
  let ?u = "''https://www.investing.com/indices/spain-indices?&majorIndices=on''"
  let ?s' = "spain_files\<lparr>sent := [(?u, 404)]\<rparr>"
  have run: "retrieve_indices silent_env (Py False) spain_files = (Inl (ConnectionError 404), ?s')"
    by (rule spain_run)
  from build_aborts_on_bad_status[OF run] obtain new where
    l: "sent ?s' = sent spain_files @ new"
    and b: "\<forall>(url, code) \<in> set new. code \<noteq> 200 \<longrightarrow>
       (Inl (ConnectionError 404) :: error + index_row frame) = Inl (ConnectionError code)
       \<and> indices_csv ?s' = indices_csv spain_files"
    by blast
  from l have "new = [(?u, 404)]" by (simp add: spain_files_def)
  with b have "indices_csv ?s' = indices_csv spain_files" by simp
  moreover have "indices_csv spain_files = Some [dax]" by (simp add: spain_files_def)
  ultimately show ?thesis by (simp add: run)
qed

text \<open>
  Claim C3. Take a call of \<open>indices_as_df\<close> or \<open>indices_as_list\<close> with a string, whose
  load of the catalog succeeds: \<open>full\<close> is the table loaded, which is the file as
  \<open>pd.read_csv\<close> reads it or, when there is no file, the table that a build returns, and
  \<open>cs\<close> is what \<open>index_countries_as_list\<close> returns after the load, the countries that
  \<open>pd.read_csv\<close> reads from the catalog file. If the lowercased and transliterated
  argument is among \<open>cs\<close>, \<open>indices_as_df\<close> returns exactly the rows of \<open>full\<close> whose
  country is that string, in their order, without \<open>tag\<close> and \<open>id\<close> and with the index
  labels 0, 1, 2 and so on, and \<open>indices_as_list\<close> returns their names. If it is not
  among \<open>cs\<close>, both return \<open>None\<close>, a value without rows, and raise nothing.
\<close>
theorem query_by_country:
  assumes a: "load_indices E s = (Inr loaded, s1)"
  shows "\<exists>full rows1 cs.
       loaded = Some full
     \<and> (\<forall>rows. indices_csv s = Some rows \<longrightarrow> s1 = s \<and> Some full = read_csv E rows)
     \<and> (indices_csv s = None \<longrightarrow>
          (\<exists>df. retrieve_indices E (Py False) s = (Inr df, s1)
             \<and> full = map (\<lambda>(i, r). (i, in_memory r)) df \<and> rows1 = map snd df))
     \<and> indices_csv s1 = Some rows1
     \<and> cs = unique (map (read_cell E (map country rows1)) [0..<length rows1])
     \<and> index_countries_as_list E s1 = (Inr cs, s1)
     \<and> (Str (unidecode (translit E) (lower c)) \<in> set cs \<longrightarrow>
          (\<exists>df. indices_as_df E (Py c) s = (Inr (Some df), s1)
             \<and> map snd df =
                  filter (\<lambda>r. country_cell r = Str (unidecode (translit E) (lower c)))
                    (map (\<lambda>(i, r). drop_tag_id r) full)
             \<and> map fst df = [0..<length df])
          \<and> indices_as_list E (Py c) s =
               (Inr (Some (map name_cell
                  (filter (\<lambda>r. country_cell r = Str (unidecode (translit E) (lower c)))
                    (map (\<lambda>(i, r). drop_tag_id r) full)))), s1))
     \<and> (Str (unidecode (translit E) (lower c)) \<notin> set cs \<longrightarrow>
          indices_as_df E (Py c) s = (Inr None, s1)
          \<and> indices_as_list E (Py c) s = (Inr None, s1))"
proof -
  let ?n = "unidecode (translit E) (lower c)"
  from load_indices_loaded[OF a] obtain full where
    "\<exists>rows1. loaded = Some full \<and> indices_csv s1 = Some rows1
     \<and> (\<forall>rows. indices_csv s = Some rows \<longrightarrow> s1 = s \<and> Some full = read_csv E rows)
     \<and> (indices_csv s = None \<longrightarrow>
          (\<exists>df. retrieve_indices E (Py False) s = (Inr df, s1)
             \<and> full = map (\<lambda>(i, r). (i, in_memory r)) df \<and> rows1 = map snd df))" ..
  then obtain rows1 where all: "loaded = Some full \<and> indices_csv s1 = Some rows1
     \<and> (\<forall>rows. indices_csv s = Some rows \<longrightarrow> s1 = s \<and> Some full = read_csv E rows)
     \<and> (indices_csv s = None \<longrightarrow>
          (\<exists>df. retrieve_indices E (Py False) s = (Inr df, s1)
             \<and> full = map (\<lambda>(i, r). (i, in_memory r)) df \<and> rows1 = map snd df))" ..
  note l = all[THEN conjunct1]
  note f = all[THEN conjunct2, THEN conjunct1]
  note p = all[THEN conjunct2, THEN conjunct2, THEN conjunct1]
  note q = all[THEN conjunct2, THEN conjunct2, THEN conjunct2]
  define cs where "cs = unique (map (read_cell E (map country rows1)) [0..<length rows1])"
  let ?sel = "filter (\<lambda>r. country_cell r = Str ?n) (map (\<lambda>(i, r). drop_tag_id r) full)"
  let ?df = "reset_index (where_country ?n (drop_columns full))"
  have a': "load_indices E s = (Inr (Some full), s1)" using a l by simp
  have ic: "index_countries_as_list E s1 = (Inr cs, s1)"
    unfolding cs_def using index_countries_as_list_present[OF f] .
  note df = indices_as_df_loaded[OF a' ic, of c]
  note li = indices_as_list_loaded[OF a' ic, of c]
  have found: "Str ?n \<in> set cs \<longrightarrow>
          (\<exists>df. indices_as_df E (Py c) s = (Inr (Some df), s1)
             \<and> map snd df = ?sel \<and> map fst df = [0..<length df])
          \<and> indices_as_list E (Py c) s = (Inr (Some (map name_cell ?sel)), s1)"
  proof
    assume m: "Str ?n \<in> set cs"
    have 1: "indices_as_df E (Py c) s = (Inr (Some ?df), s1)" using df m by simp
    have 2: "map snd ?df = ?sel"
      by (simp only: reset_index_snd where_country_rows)
    have 3: "map fst ?df = [0..<length ?df]" by (rule reset_index_fst')
    have 4: "indices_as_list E (Py c) s = (Inr (Some (map name_cell ?sel)), s1)"
      using li m by (simp only: names_where_country if_True)
    from 1 2 3 have "\<exists>df. indices_as_df E (Py c) s = (Inr (Some df), s1)
             \<and> map snd df = ?sel \<and> map fst df = [0..<length df]"
      by (intro exI[of _ ?df] conjI)
    with 4 show "(\<exists>df. indices_as_df E (Py c) s = (Inr (Some df), s1)
             \<and> map snd df = ?sel \<and> map fst df = [0..<length df])
          \<and> indices_as_list E (Py c) s = (Inr (Some (map name_cell ?sel)), s1)"
      by (rule conjI[rotated])
  qed
  have missing: "Str ?n \<notin> set cs \<longrightarrow>
          indices_as_df E (Py c) s = (Inr None, s1)
          \<and> indices_as_list E (Py c) s = (Inr None, s1)"
    using df li by simp
  show ?thesis
    apply (rule exI[of _ full], rule exI[of _ rows1], rule exI[of _ cs])
    apply (intro conjI)
          apply (rule l)
         apply (rule p)
        apply (rule q)
       apply (rule f)
      apply (rule cs_def)
     apply (rule ic)
    apply (rule found)
    apply (rule missing)
    done
qed

theorem query_by_country_witness:
  "index_countries_as_list silent_env (files_with (Some [dax, no_country, nikkei])) =
     (Inr [Str ''germany'', NaN, Str ''japan''], files_with (Some [dax, no_country, nikkei]))
   \<and> indices_as_df silent_env (Py ''Germany'') (files_with (Some [dax, no_country, nikkei])) =
     (Inr (Some [(0, drop_tag_id dax_cells)]), files_with (Some [dax, no_country, nikkei]))
   \<and> indices_as_list silent_env (Py ''Germany'') (files_with (Some [dax, no_country, nikkei])) =
     (Inr (Some [Str ''DAX'']), files_with (Some [dax, no_country, nikkei]))
   \<and> indices_as_df silent_env (Py []) (files_with (Some [dax, no_country, nikkei])) =
     (Inr None, files_with (Some [dax, no_country, nikkei]))
   \<and> indices_as_list silent_env (Py []) (files_with (Some [dax, no_country, nikkei])) =
     (Inr None, files_with (Some [dax, no_country, nikkei]))"
proof -
  let ?cat = "[dax, no_country, nikkei]"
  let ?s = "files_with (Some ?cat)"
  let ?fr = "[(0, dax_cells), (Suc 0, no_country_cells), (Suc (Suc 0), nikkei_cells)]"
  have f: "indices_csv ?s = Some ?cat" by (simp add: files_with_def)
  have l: "load_indices silent_env ?s = (Inr (Some ?fr), ?s)"
    using load_indices_present[OF f, of silent_env] by (simp only: read_csv_three)
  have g: "unidecode (translit silent_env) (lower ''Germany'') = ''germany''"
    by (simp add: lower_Germany unidecode_def)
  have e: "unidecode (translit silent_env) (lower []) = []"
    by (rule unidecode_empty)
  have u: "unique (map (read_cell silent_env (map country ?cat)) [0..<length ?cat]) =
      [Str ''germany'', NaN, Str ''japan'']"
    by (rule countries_three)
  have sel: "filter (\<lambda>r. country_cell r = Str ''germany'') (map (\<lambda>(i, r). drop_tag_id r) ?fr) =
      [drop_tag_id dax_cells]"
    by (simp add: countries_of_cells)
  from query_by_country[OF l, of "''Germany''"] obtain full rows1 cs where
    q1: "Some ?fr = Some full"
    and q4: "indices_csv ?s = Some rows1"
    and q5: "cs = unique (map (read_cell silent_env (map country rows1)) [0..<length rows1])"
    and q6: "index_countries_as_list silent_env ?s = (Inr cs, ?s)"
    and q7: "Str (unidecode (translit silent_env) (lower ''Germany'')) \<in> set cs \<longrightarrow>
          (\<exists>df. indices_as_df silent_env (Py ''Germany'') ?s = (Inr (Some df), ?s)
             \<and> map snd df =
                  filter (\<lambda>r. country_cell r =
                      Str (unidecode (translit silent_env) (lower ''Germany'')))
                    (map (\<lambda>(i, r). drop_tag_id r) full)
             \<and> map fst df = [0..<length df])
          \<and> indices_as_list silent_env (Py ''Germany'') ?s =
               (Inr (Some (map name_cell
                  (filter (\<lambda>r. country_cell r =
                      Str (unidecode (translit silent_env) (lower ''Germany'')))
                    (map (\<lambda>(i, r). drop_tag_id r) full)))), ?s)"
    by (elim exE conjE) (rule that)
  from q1 have full: "full = ?fr" by simp
  from q4 f have rows1: "rows1 = ?cat" by simp
  from q5 have cs: "cs = [Str ''germany'', NaN, Str ''japan'']"
    unfolding rows1 by (simp only: u)
  from q6 have 1: "index_countries_as_list silent_env ?s =
      (Inr [Str ''germany'', NaN, Str ''japan''], ?s)"
    by (simp only: cs)
  have "Str (unidecode (translit silent_env) (lower ''Germany'')) \<in> set cs"
    by (simp only: g cs) simp
  with q7 have q7': "(\<exists>df. indices_as_df silent_env (Py ''Germany'') ?s = (Inr (Some df), ?s)
             \<and> map snd df = [drop_tag_id dax_cells]
             \<and> map fst df = [0..<length df])
          \<and> indices_as_list silent_env (Py ''Germany'') ?s =
               (Inr (Some (map name_cell [drop_tag_id dax_cells])), ?s)"
    by (simp only: g full sel) 
  then obtain df where d: "indices_as_df silent_env (Py ''Germany'') ?s = (Inr (Some df), ?s)"
    and d1: "map snd df = [drop_tag_id dax_cells]" and d2: "map fst df = [0..<length df]"
    by (elim exE conjE)
  from frame_of_one[OF d1 d2] d
  have 2: "indices_as_df silent_env (Py ''Germany'') ?s =
      (Inr (Some [(0, drop_tag_id dax_cells)]), ?s)"
    by simp
  from q7' have 3: "indices_as_list silent_env (Py ''Germany'') ?s =
      (Inr (Some [Str ''DAX'']), ?s)"
    by (simp add: countries_of_cells)
  from query_by_country[OF l, of "[]"] obtain rows2 cs2 where
    p4: "indices_csv ?s = Some rows2"
    and p5: "cs2 = unique (map (read_cell silent_env (map country rows2)) [0..<length rows2])"
    and p8: "Str (unidecode (translit silent_env) (lower [])) \<notin> set cs2 \<longrightarrow>
          indices_as_df silent_env (Py []) ?s = (Inr None, ?s)
          \<and> indices_as_list silent_env (Py []) ?s = (Inr None, ?s)"
    by (elim exE conjE) (rule that)
  from p4 f have rows2: "rows2 = ?cat" by simp
  from p5 have cs2: "cs2 = [Str ''germany'', NaN, Str ''japan'']"
    unfolding rows2 by (simp only: u)
  have "Str (unidecode (translit silent_env) (lower [])) \<notin> set cs2"
    by (simp only: e cs2) simp
  with p8 have 4: "indices_as_df silent_env (Py []) ?s = (Inr None, ?s)
          \<and> indices_as_list silent_env (Py []) ?s = (Inr None, ?s)"
    by (rule mp)
  from 1 2 3 4 show ?thesis by (intro conjI) simp_all
qed

text \<open>
  Claim C4 at a failing input. The catalog file holds a row of \<open>germany\<close> and a row of
  \<open>japan\<close>, read as pandas reads them, and the country asked for is \<open>Germany\<close>.
  \<open>indices_as_dict\<close> looks for the argument as given among the countries, finds
  nothing and returns \<open>None\<close>; \<open>indices_as_df\<close> looks for the normalised argument and
  returns the row. With \<open>germany\<close>, \<open>indices_as_dict\<close> returns the row too.
\<close>
theorem indices_as_dict_membership_not_normalised:
  "indices_as_dict (E\<lparr>read_cell := pandas_cell\<rparr>) (Py ''Germany'') PyNone (Py False)
     (files_with (Some [dax, nikkei])) =
     (Inr None, files_with (Some [dax, nikkei]))
   \<and> indices_as_df (E\<lparr>read_cell := pandas_cell\<rparr>) (Py ''Germany'')
     (files_with (Some [dax, nikkei])) =
     (Inr (Some [(0, drop_tag_id dax_cells)]), files_with (Some [dax, nikkei]))
   \<and> indices_as_dict (E\<lparr>read_cell := pandas_cell\<rparr>) (Py ''germany'') PyNone (Py False)
     (files_with (Some [dax, nikkei])) =
     (Inr (Some (Records (to_dict view_columns [(0, drop_tag_id dax_cells)]))),
      files_with (Some [dax, nikkei]))"
proof -
  let ?E = "E\<lparr>read_cell := pandas_cell\<rparr>"
  let ?s = "files_with (Some [dax, nikkei])"
  have f: "indices_csv ?s = Some [dax, nikkei]" by (simp add: files_with_def)
  have r: "read_csv ?E [dax, nikkei] = Some [(0, dax_cells), (Suc 0, nikkei_cells)]"
  proof -
    have "read_cell ?E = read_cell silent_env" by (simp add: silent_env_def)
    from read_csv_reader[OF this, of "[dax, nikkei]"] show ?thesis
      by (simp only: read_csv_two)
  qed
  have l: "load_indices ?E ?s = (Inr (Some [(0, dax_cells), (Suc 0, nikkei_cells)]), ?s)"
    using load_indices_present[OF f, of ?E] by (simp only: r)
  have c: "index_countries_as_list ?E ?s = (Inr [Str ''germany'', Str ''japan''], ?s)"
  proof -
    have "read_cell ?E = pandas_cell" by simp
    with index_countries_as_list_present[OF f, of ?E] show ?thesis
      by (simp only: countries_two)
  qed
  have d: "drop_columns [(0, dax_cells), (Suc 0, nikkei_cells)] =
      [(0, drop_tag_id dax_cells), (Suc 0, drop_tag_id nikkei_cells)]"
    by (simp add: drop_columns_def)
  have w: "where_country ''germany''
        [(0, drop_tag_id dax_cells), (Suc 0, drop_tag_id nikkei_cells)] =
      [(0, drop_tag_id dax_cells)]"
    by (simp add: where_country_def countries_of_cells)
  have v: "list_all (\<lambda>column. column \<in> set view_columns) view_columns"
    by (simp add: list_all_iff)
  have t: "translit ?E = translit E" by simp
  have 1: "indices_as_dict ?E (Py ''Germany'') PyNone (Py False) ?s = (Inr None, ?s)"
    using v
    by (simp add: indices_as_dict_def bind_io_def l c d return_def Let_def)
  have 2: "indices_as_df ?E (Py ''Germany'') ?s = (Inr (Some [(0, drop_tag_id dax_cells)]), ?s)"
    by (simp add: indices_as_df_def bind_io_def l c d w return_def lower_Germany
        unidecode_germany reset_index_def enumerate_eq_zip Let_def)
  have 3: "indices_as_dict ?E (Py ''germany'') PyNone (Py False) ?s =
     (Inr (Some (Records (to_dict view_columns [(0, drop_tag_id dax_cells)]))), ?s)"
    using v
    by (simp add: indices_as_dict_def bind_io_def l c d w return_def lower_germany
        unidecode_germany export_def Let_def)
  from 1 2 3 show ?thesis by (intro conjI)
qed

text \<open>
  Claim C5 at a failing input. The listing of the third pass has a row without a flag
  span: \<open>region\<close> stays \<open>None\<close>, the call of \<open>strip\<close> on it raises
  \<open>AttributeError\<close>, and the build ends there, after its first request. A flag span
  without a \<open>title\<close> does the same; a flag span with an empty title gives \<open>world\<close>.
  The detail page of the same provider has neither a heading nor a currency, and
  \<open>retrieve_index_info\<close> returns \<open>None\<close> for both.
\<close>

theorem missing_flag_aborts_build:
  "retrieve_indices flagless_env (Py False) fresh_files =
     (Inl AttributeError,
      fresh_files\<lparr>sent :=
        [(''https://www.investing.com/indices/global-indices?majorIndices=on&r_id='', 200)]\<rparr>)
   \<and> map_region (translit flagless_env) (last_flag []) = Inl AttributeError
   \<and> map_region (translit flagless_env) (last_flag [None]) = Inl AttributeError
   \<and> map_region (translit flagless_env) (last_flag [Some []]) = Inr ''world''
   \<and> retrieve_index_info flagless_env ''japan-ni225'' fresh_files =
       (Inr \<lparr>info_currency = None, info_symbol = None\<rparr>,
        fresh_files\<lparr>sent := [(''https://www.investing.com/indices/japan-ni225'', 200)]\<rparr>)"
proof -
  have "retrieve_index_info flagless_env ''japan-ni225'' fresh_files =
       (Inr \<lparr>info_currency = None, info_symbol = None\<rparr>,
        fresh_files\<lparr>sent := [(''https://www.investing.com/indices/japan-ni225'', 200)]\<rparr>)"
    by (simp add: retrieve_index_info_def fetch_page_def requests_get_def bind_io_def return_def
        flagless_env_def flagless_page_def read_currency_def read_symbol_def fresh_files_def)
  then show ?thesis
    by (simp add: flagless_run map_region_def last_flag_def)
qed

text \<open>
  Claim C6, as the code has it for the first file. When \<open>index_countries.csv\<close> is
  absent, a build fails at once with \<open>IOError\<close>, and the files and the log of requests
  are as it found them: it has sent no request, so it has run no lister, and it has
  written nothing.
\<close>
theorem missing_country_files:
  assumes "index_countries_csv s = None"
  shows "retrieve_indices E (Py tm) s = (Inl (IOError ''ERR#0036''), s)"
  using assms by (rule retrieve_indices_no_country_file)

theorem missing_country_files_witness:
  "index_countries_csv (files_with None) = None
   \<and> retrieve_indices silent_env (Py False) (files_with None) =
     (Inl (IOError ''ERR#0036''), files_with None)
   \<and> retrieve_indices listing_env (Py True) (fresh_files\<lparr>index_countries_csv := None\<rparr>) =
     (Inl (IOError ''ERR#0036''), fresh_files\<lparr>index_countries_csv := None\<rparr>)"
proof -
  have a: "index_countries_csv (files_with None) = None" by (simp add: files_with_def)
  have b: "index_countries_csv (fresh_files\<lparr>index_countries_csv := None\<rparr>) = None" by simp
  from a missing_country_files[OF a, of silent_env False]
    missing_country_files[OF b, of listing_env True]
  show ?thesis by (intro conjI)
qed

text \<open>
  Against claim C6 as stated: with no \<open>index_countries.csv\<close> the build fails with
  \<open>IOError\<close> and sends no request, although the lister would have found a country
  on the page of this provider.
\<close>
theorem no_lister_for_first_file:
  "retrieve_indices selector_env (Py False) (files_with None) =
     (Inl (IOError ''ERR#0036''), files_with None)
   \<and> fst (retrieve_index_countries selector_env (Py True) (files_with None)) =
     Inr [(0, CountryEntry ''spain'' ''spain'')]"
proof -
  have h: "http selector_env n u = \<lparr>status_code = 200, body = selector_page\<rparr>" for n u
    by (simp add: selector_env_def)
  have t: "translit selector_env = (\<lambda>c. ''?'')" by (simp add: selector_env_def)
  have c: "country_options selector_page =
        [\<lparr>opt_value = Some ''/indices/world-indices'', opt_text = ''World Indices''\<rparr>,
         \<lparr>opt_value = Some ''/indices/spain-indices'', opt_text = '' Spain ''\<rparr>]"
    by (simp add: selector_page_def)
  have v: "country_of_value ''/indices/spain-indices'' = ''spain''"
    by (simp add: country_of_value_def replace_def strip_def isspace_def)
  have u: "unidecode (\<lambda>c. ''?'') ''spain'' = ''spain''" by (simp add: unidecode_def)
  have "fst (retrieve_index_countries selector_env (Py True) (files_with None)) =
     Inr [(0, CountryEntry ''spain'' ''spain'')]"
    by (simp add: retrieve_index_countries_def fetch_page_def requests_get_def bind_io_def
        return_def raise_def h c t lift_def attr_def continue_def v lower_Spain u DataFrame_def)
  moreover have "index_countries_csv (files_with None) = None" by (simp add: files_with_def)
  ultimately show ?thesis by (simp add: retrieve_indices_no_country_file)
qed

text \<open>
  Claim C7 at a failing input. On a catalog file with no rows,
  \<open>index_countries_as_list\<close> returns the empty list and raises nothing. The other parts
  of the claim hold at the inputs next to it: with no catalog file the function fails
  with \<open>FileNotFoundError\<close>, and on a catalog with rows of \<open>japan\<close>, \<open>germany\<close> and
  \<open>japan\<close>, read as pandas reads them, it returns \<open>japan\<close> and \<open>germany\<close>, each once
  and in the order of first appearance.
\<close>
theorem index_countries_as_list_no_rows:
  "index_countries_as_list E (files_with (Some [])) = (Inr [], files_with (Some []))
   \<and> index_countries_as_list E (files_with None) =
       (Inl (FileNotFoundError ''ERR#0059''), files_with None)
   \<and> index_countries_as_list (E\<lparr>read_cell := pandas_cell\<rparr>)
        (files_with (Some [nikkei, dax, nikkei])) =
       (Inr [Str ''japan'', Str ''germany''], files_with (Some [nikkei, dax, nikkei]))"
proof -
  have a: "indices_csv (files_with (Some [])) = Some []"
    and b: "indices_csv (files_with None) = None"
    and c: "indices_csv (files_with (Some [nikkei, dax, nikkei])) = Some [nikkei, dax, nikkei]"
    by (simp_all add: files_with_def)
  have 1: "index_countries_as_list E (files_with (Some [])) = (Inr [], files_with (Some []))"
    using index_countries_as_list_present[OF a, of E] by simp
  have 2: "index_countries_as_list E (files_with None) =
       (Inl (FileNotFoundError ''ERR#0059''), files_with None)"
    using b by (simp add: index_countries_as_list_def raise_def)
  have 3: "index_countries_as_list (E\<lparr>read_cell := pandas_cell\<rparr>)
        (files_with (Some [nikkei, dax, nikkei])) =
       (Inr [Str ''japan'', Str ''germany''], files_with (Some [nikkei, dax, nikkei]))"
  proof -
    have "read_cell (E\<lparr>read_cell := pandas_cell\<rparr>) = pandas_cell" by simp
    with index_countries_as_list_present[OF c, of "E\<lparr>read_cell := pandas_cell\<rparr>"]
    show ?thesis by (simp only: countries_repeated)
  qed
  from 1 2 3 show ?thesis by (intro conjI)
qed

text \<open>
  Claim C8, as the code has it. When the catalog file is there, a call of
  \<open>indices_as_dict\<close> with a list of columns of which one is not among \<open>country\<close>,
  \<open>name\<close>, \<open>full_name\<close>, \<open>symbol\<close>, \<open>currency\<close>, \<open>class\<close> and \<open>market\<close> fails with
  \<open>ValueError\<close> and leaves the files as they are. \<open>tag\<close> and \<open>id\<close> are not among the
  seven.
\<close>
theorem indices_as_dict_unknown_column:
  assumes "indices_csv s = Some rows" and "\<exists>c \<in> set columns. c \<notin> set view_columns"
  shows "indices_as_dict E country0 (Py columns) as_json0 s =
     (Inl (ValueError (if country0 = PyOther then ''ERR#0025''
                       else if as_json0 = PyNone \<or> as_json0 = PyOther then ''ERR#0002''
                       else ''ERR#0023'')), s)
     \<and> ''tag'' \<notin> set view_columns \<and> ''id'' \<notin> set view_columns"
proof -
  have n: "\<not> list_all (\<lambda>column. column \<in> set view_columns) columns"
    using assms(2) by (auto simp: list_all_iff)
  have t: "''tag'' \<notin> set view_columns \<and> ''id'' \<notin> set view_columns"
    by (simp add: view_columns_def)
  obtain full where f: "read_csv E rows = Some full" using read_csv_never_None by blast
  have l: "load_indices E s = (Inr (Some full), s)"
    using load_indices_present[OF assms(1), of E] by (simp only: f)
  show ?thesis
    using n t l
    by (cases as_json0)
      (simp_all add: indices_as_dict_def bind_io_def raise_def return_def Let_def)
qed

theorem indices_as_dict_unknown_column_witness:
  "indices_as_dict silent_env PyNone (Py [''name'', ''tag'']) (Py True)
     (files_with (Some [dax])) =
     (Inl (ValueError ''ERR#0023''), files_with (Some [dax]))
   \<and> indices_as_dict silent_env (Py ''japan'') (Py [''bogus'']) (Py False)
     (files_with (Some [dax])) =
     (Inl (ValueError ''ERR#0023''), files_with (Some [dax]))"
proof -
  have f: "indices_csv (files_with (Some [dax])) = Some [dax]" by (simp add: files_with_def)
  have a: "\<exists>c \<in> set [''name'', ''tag'']. c \<notin> set view_columns"
    by (simp add: view_columns_def)
  have b: "\<exists>c \<in> set [''bogus'']. c \<notin> set view_columns"
    by (simp add: view_columns_def)
  from indices_as_dict_unknown_column[OF f a, of silent_env PyNone "Py True"]
    indices_as_dict_unknown_column[OF f b, of silent_env "Py ''japan''" "Py False"]
  show ?thesis by simp
qed

text \<open>
  Against claim C8 as stated: with no catalog file the call starts a build before it
  looks at the columns, and with no country file that build fails with \<open>IOError\<close>.
\<close>
theorem indices_as_dict_unknown_column_without_catalog:
  "indices_as_dict silent_env PyNone (Py [''bogus'']) (Py False) (files_with None) =
     (Inl (IOError ''ERR#0036''), files_with None)"
  by (simp add: indices_as_dict_def bind_io_def load_indices_def retrieve_indices_def
      collect_def raise_def files_with_def)

text \<open>
  Claim C9. The symbol extraction of \<open>retrieve_index_info\<close> returns, for a heading
  whose trimmed text ends in an opening parenthesis, a token of letters, digits and
  the characters \<open>. - _ =\<close> and a closing parenthesis, that token without the
  parentheses, and returns \<open>None\<close> for a heading whose trimmed text does not end so. A page
  with this one heading gets the same value in \<open>symbol\<close>. In particular
  \<open>Example Index (IDX)\<close> gives \<open>IDX\<close> and \<open>Example Index\<close> gives \<open>None\<close>.
\<close>

theorem extract_symbol_trailing_token:
  "(list_all symbol_char tok \<and> strip t = pre @ ''('' @ tok @ '')''
      \<longrightarrow> extract_symbol t = Some tok \<and> read_symbol [t] = Some tok)
   \<and> ((\<forall>p k. list_all symbol_char k \<longrightarrow> strip t \<noteq> p @ ''('' @ k @ '')'')
      \<longrightarrow> extract_symbol t = None \<and> read_symbol [t] = None)
   \<and> extract_symbol ''Example Index (IDX)'' = Some ''IDX''
   \<and> extract_symbol ''Example Index'' = None"
proof (intro conjI impI)
  assume a: "list_all symbol_char tok \<and> strip t = pre @ ''('' @ tok @ '')''"
  then show "extract_symbol t = Some tok" using extract_symbol_found by blast
  then show "read_symbol [t] = Some tok" by (simp add: read_symbol_single)
next
  assume n: "\<forall>p k. list_all symbol_char k \<longrightarrow> strip t \<noteq> p @ ''('' @ k @ '')''"
  show e: "extract_symbol t = None"
  proof (cases "extract_symbol t")
    case None
    then show ?thesis .
  next
    case (Some v)
    from extract_symbol_Some[OF this] n show ?thesis by blast
  qed
  then show "read_symbol [t] = None" by (simp add: read_symbol_single)
next
  show "extract_symbol ''Example Index (IDX)'' = Some ''IDX''"
    by (simp add: extract_symbol_def strip_def isspace_def match_here_def symbol_char_def
        replace_def)
next
  show "extract_symbol ''Example Index'' = None"
    by (simp add: extract_symbol_def strip_def isspace_def match_here_def symbol_char_def
        replace_def)
qed

theorem extract_symbol_trailing_token_witness:
  "list_all symbol_char ''N225''
   \<and> strip ''Nikkei 225 (N225) '' = ''Nikkei 225 '' @ ''('' @ ''N225'' @ '')''
   \<and> extract_symbol ''Nikkei 225 (N225) '' = Some ''N225''
   \<and> \<not> (\<exists>p k. list_all symbol_char k \<and> strip ''Nikkei 225'' = p @ ''('' @ k @ '')'')
   \<and> extract_symbol ''Nikkei 225'' = None"
proof -
  have h1: "list_all symbol_char ''N225''
      \<and> strip ''Nikkei 225 (N225) '' = ''Nikkei 225 '' @ ''('' @ ''N225'' @ '')''"
    by (simp add: symbol_char_def strip_def isspace_def)
  have s: "strip ''Nikkei 225'' = ''Nikkei 225''"
    by (simp add: strip_def isspace_def)
  have h2: "\<forall>p k. list_all symbol_char k \<longrightarrow> strip ''Nikkei 225'' \<noteq> p @ ''('' @ k @ '')''"
  proof (intro allI impI notI)
    fix p k
    assume "strip ''Nikkei 225'' = p @ ''('' @ k @ '')''"
    then have "last ''Nikkei 225'' = last (p @ ''('' @ k @ '')'')" using s by simp
    then show False by simp
  qed
  from h1 h2
    extract_symbol_trailing_token[of "''N225''" "''Nikkei 225 (N225) ''" "''Nikkei 225 ''"]
    extract_symbol_trailing_token[of _ "''Nikkei 225''"]
  show ?thesis by blast
qed

text \<open>
  Claim C10. In the third pass the region read from the flag cell of a row, the title of
  its last flag span, gives the country of the row: the empty string gives \<open>world\<close>,
  \<open>Euro Zone\<close> gives \<open>euro zone\<close>, and every other string gives its trimmed,
  lowercased and transliterated form. Every record that the pass takes from the row
  has that country.
\<close>

theorem region_mapping:
  "map_region tbl (last_flag (flags @ [Some r])) =
     Inr (if r = [] then ''world'' else if r = ''Euro Zone'' then ''euro zone''
          else unidecode tbl (lower (strip r)))
   \<and> (flag_titles elements = flags @ [Some r]
        \<and> pass3_row E cl elements results s = (Inr results', s') \<longrightarrow>
      (\<exists>new. results' = results @ new
         \<and> list_all (\<lambda>x. country x =
              (if r = [] then ''world'' else if r = ''Euro Zone'' then ''euro zone''
               else unidecode (translit E) (lower (strip r)))) new))"
proof (intro conjI impI)
  show m: "map_region tbl (last_flag (flags @ [Some r])) =
     Inr (if r = [] then ''world'' else if r = ''Euro Zone'' then ''euro zone''
          else unidecode tbl (lower (strip r)))" for tbl
    by (simp add: map_region_def lower_euro_zone last_flag_snoc)
  assume a: "flag_titles elements = flags @ [Some r]
        \<and> pass3_row E cl elements results s = (Inr results', s')"
  then have "pass3_row E cl elements results s = (Inr results', s')" by simp
  from pass3_row_country[OF this] obtain region new where
    "map_region (translit E) (last_flag (flag_titles elements)) = Inr region"
    and n: "results' = results @ new" "list_all (\<lambda>r. country r = region) new"
    by blast
  with a m[of "translit E"] have "region =
      (if r = [] then ''world'' else if r = ''Euro Zone'' then ''euro zone''
       else unidecode (translit E) (lower (strip r)))"
    by simp
  with n show "\<exists>new. results' = results @ new
         \<and> list_all (\<lambda>x. country x =
              (if r = [] then ''world'' else if r = ''Euro Zone'' then ''euro zone''
               else unidecode (translit E) (lower (strip r)))) new"
    by blast
qed

theorem region_mapping_witness:
  "map_region (\<lambda>c. ''?'') (last_flag [Some ''France'', Some '' Hong Kong '']) = Inr ''hong kong''
   \<and> map_region (\<lambda>c. ''?'') (last_flag [Some []]) = Inr ''world''
   \<and> map_region (\<lambda>c. ''?'') (last_flag [Some ''Euro Zone'']) = Inr ''euro zone''
   \<and> fst (pass3_row listing_env ''bonds''
        \<lparr>row_id = Some ''pair_178'', flag_titles = [Some ''Japan''],
         anchors = [\<lparr>a_href = Some ''/indices/japan-ni225'',
                     a_title = Some ''Nikkei 225 (CFD)'', a_text = Some ''Nikkei 225''\<rparr>]\<rparr>
        [] fresh_files) = Inr [listed ''japan'' ''bonds'']
   \<and> list_all (\<lambda>x. country x = ''japan'') [listed ''japan'' ''bonds'']"
proof -
  let ?row = "\<lparr>row_id = Some ''pair_178'', flag_titles = [Some ''Japan''],
         anchors = [\<lparr>a_href = Some ''/indices/japan-ni225'',
                     a_title = Some ''Nikkei 225 (CFD)'', a_text = Some ''Nikkei 225''\<rparr>]\<rparr>"
  have h: "unidecode (\<lambda>c. ''?'') (lower (strip '' Hong Kong '')) = ''hong kong''"
    by code_simp
  have j: "unidecode (translit listing_env) (lower (strip ''Japan'')) = ''japan''"
    by code_simp
  have f: "flag_titles ?row = [] @ [Some ''Japan'']" by simp
  have run: "pass3_row listing_env ''bonds'' ?row [] fresh_files =
     (Inr ([] @ [listed ''japan'' ''bonds'']),
      fresh_files\<lparr>sent := sent fresh_files
         @ [(''https://www.investing.com/indices/japan-ni225'', 200)]\<rparr>)"
    by (rule pass3_row_japan)
  from f run region_mapping[where r = "''Japan''" and elements = ?row and flags = "[]"
      and E = listing_env and cl = "''bonds''" and results = "[]" and s = fresh_files
      and results' = "[] @ [listed ''japan'' ''bonds'']"]
  obtain new where "[] @ [listed ''japan'' ''bonds''] = [] @ new"
    and "list_all (\<lambda>x. country x = (if ''Japan'' = [] then ''world''
           else if ''Japan'' = ''Euro Zone'' then ''euro zone''
           else unidecode (translit listing_env) (lower (strip ''Japan'')))) new"
    by blast
  then have c: "list_all (\<lambda>x. country x = ''japan'') [listed ''japan'' ''bonds'']"
    by (simp add: j)
  have r: "fst (pass3_row listing_env ''bonds'' ?row [] fresh_files) = Inr [listed ''japan'' ''bonds'']"
    by (simp add: run)
  from h c r show ?thesis
    using region_mapping[of "\<lambda>c. ''?''" "[Some ''France'']" "'' Hong Kong ''"]
      region_mapping[of "\<lambda>c. ''?''" "[]" "[]"]
      region_mapping[of "\<lambda>c. ''?''" "[]" "''Euro Zone''"]
    by simp
qed

end
